theory Spec2Isabelle
  imports Main "HOL-Library.Sublist"
begin

section \<open>Python strings\<close>

text \<open>
  A Python \<open>str\<close> is a sequence of code points. The model keeps the code points below
  256 (Latin-1), one \<^typ>\<open>char\<close> each: every literal of the program (the Portuguese
  messages included) lies in that range. Code points from 256 on are outside the model.
\<close>

definition lower_char :: "char \<Rightarrow> char" where
  "lower_char c =
     (let n = (of_char c :: nat) in
      if (65 \<le> n \<and> n \<le> 90) \<or> (192 \<le> n \<and> n \<le> 222 \<and> n \<noteq> 215)
      then char_of (n + 32) else c)"

text \<open>\<^verbatim>\<open>s.lower()\<close>\<close>

definition lower :: "string \<Rightarrow> string" where
  "lower s = map lower_char s"

text \<open>\<^verbatim>\<open>s.startswith(p)\<close>\<close>

definition startswith :: "string \<Rightarrow> string \<Rightarrow> bool" where
  "startswith s p = (take (length p) s = p)"

text \<open>\<^verbatim>\<open>needle in hay\<close> on strings: \<open>needle\<close> occurs in \<open>hay\<close> as a substring.\<close>

primrec contains :: "string \<Rightarrow> string \<Rightarrow> bool" where
  "contains needle [] = (needle = [])"
| "contains needle (x # xs) = (startswith (x # xs) needle \<or> contains needle xs)"

text \<open>
  The characters for which \<^verbatim>\<open>str.isspace()\<close> holds, below 256. The class \<^verbatim>\<open>\s\<close> of
  \<^verbatim>\<open>re\<close> and \<^verbatim>\<open>str.strip()\<close> use them.
\<close>

definition whitespace :: "char list" where
  "whitespace = [CHR 0x09, CHR 0x0A, CHR 0x0B, CHR 0x0C, CHR 0x0D, CHR 0x1C, CHR 0x1D,
     CHR 0x1E, CHR 0x1F, CHR 0x20, CHR 0x85, CHR 0xA0]"

definition isspace :: "char \<Rightarrow> bool" where
  "isspace c = (c \<in> set whitespace)"

text \<open>\<^verbatim>\<open>s.strip()\<close>\<close>

definition strip :: "string \<Rightarrow> string" where
  "strip s = rev (dropWhile isspace (rev (dropWhile isspace s)))"

text \<open>\<^verbatim>\<open>str(n)\<close> for a natural number and for an integer, in decimal.\<close>

fun str_nat :: "nat \<Rightarrow> string" where
  "str_nat n =
     (if n < 10 then [char_of (48 + n)]
      else str_nat (n div 10) @ [char_of (48 + n mod 10)])"

declare str_nat.simps [simp del]

definition str_int :: "int \<Rightarrow> string" where
  "str_int i = (if i < 0 then CHR ''-'' # str_nat (nat (- i)) else str_nat (nat i))"

section \<open>The regular expressions of the script analyzer\<close>

text \<open>
  The signatures of \<^verbatim>\<open>ScriptAnalyzer\<close> are sequences of single characters, character
  classes, \<^verbatim>\<open>\s*\<close>, \<^verbatim>\<open>[^...]+\<close>, one-character capture groups and back-references.
  A pattern is the list of its items, matched left to right with Python's greedy,
  backtracking priority. In a class, \<^verbatim>\<open>\1\<close> is the character with code 1 (an octal
  escape), outside a class it refers to group 1.
\<close>

datatype cls = Lit char | Space | OneOf "char list" | NoneOf "char list"

fun cls_match :: "cls \<Rightarrow> char \<Rightarrow> bool" where
  "cls_match (Lit c) x = (x = c)"
| "cls_match Space x = isspace x"
| "cls_match (OneOf cs) x = (x \<in> set cs)"
| "cls_match (NoneOf cs) x = (x \<notin> set cs)"

datatype item = One cls | Star cls | Plus cls | Group nat cls | Backref nat

type_synonym regex = "item list"

text \<open>
  \<open>match_here p g s\<close>: the text the pattern \<open>p\<close> matches at the start of \<open>s\<close>, with the
  groups captured so far in \<open>g\<close>; \<open>None\<close> when it matches nothing there.
\<close>

fun match_here :: "regex \<Rightarrow> (nat \<Rightarrow> char option) \<Rightarrow> string \<Rightarrow> string option" where
  "match_here [] g s = Some []"
| "match_here (One c # r) g [] = None"
| "match_here (One c # r) g (x # xs) =
     (if cls_match c x then map_option ((#) x) (match_here r g xs) else None)"
| "match_here (Group n c # r) g [] = None"
| "match_here (Group n c # r) g (x # xs) =
     (if cls_match c x then map_option ((#) x) (match_here r (g(n := Some x)) xs) else None)"
| "match_here (Backref n # r) g [] = None"
| "match_here (Backref n # r) g (x # xs) =
     (if g n = Some x then map_option ((#) x) (match_here r g xs) else None)"
| "match_here (Plus c # r) g [] = None"
| "match_here (Plus c # r) g (x # xs) =
     (if cls_match c x then map_option ((#) x) (match_here (Star c # r) g xs) else None)"
| "match_here (Star c # r) g [] = match_here r g []"
| "match_here (Star c # r) g (x # xs) =
     (if cls_match c x
      then (case match_here (Star c # r) g xs of
              Some m \<Rightarrow> Some (x # m)
            | None \<Rightarrow> match_here r g (x # xs))
      else match_here r g (x # xs))"

text \<open>\<^verbatim>\<open>re.search(p, s)\<close>: the first match, scanning the start positions left to right.\<close>

primrec re_search :: "regex \<Rightarrow> string \<Rightarrow> string option" where
  "re_search p [] = match_here p (\<lambda>_. None) []"
| "re_search p (x # xs) =
     (case match_here p (\<lambda>_. None) (x # xs) of
        Some m \<Rightarrow> Some m
      | None \<Rightarrow> re_search p xs)"

text \<open>
  \<^verbatim>\<open>list(re.finditer(p, s))\<close>, as the list of the matched texts: the non-overlapping
  matches from left to right. The counter is the number of characters still covered by
  the previous match. (For a pattern that matches the empty string Python has further
  rules; no signature of the program does.)
\<close>

fun finditer_from :: "regex \<Rightarrow> nat \<Rightarrow> string \<Rightarrow> string list" where
  "finditer_from p k [] =
     (if k = 0
      then (case match_here p (\<lambda>_. None) [] of Some m \<Rightarrow> [m] | None \<Rightarrow> [])
      else [])"
| "finditer_from p k (x # xs) =
     (if 0 < k then finditer_from p (k - 1) xs
      else (case match_here p (\<lambda>_. None) (x # xs) of
              None \<Rightarrow> finditer_from p 0 xs
            | Some m \<Rightarrow> m # finditer_from p (length m - 1) xs))"

definition finditer :: "regex \<Rightarrow> string \<Rightarrow> string list" where
  "finditer p s = finditer_from p 0 s"

text \<open>A literal run of characters, each matched as itself.\<close>

definition lits :: "string \<Rightarrow> regex" where
  "lits s = map (\<lambda>c. One (Lit c)) s"

text \<open>The class \<^verbatim>\<open>['"`]\<close>.\<close>

definition quotes :: cls where
  "quotes = OneOf [CHR 0x27, CHR 0x22, CHR 0x60]"

section \<open>script\_analyzer.py\<close>

text \<open>\<^verbatim>\<open>self.dangerous_js_functions['high_risk']\<close>\<close>

definition high_risk :: "regex list" where
  "high_risk =
    [lits ''eval'' @ [Star Space, One (Lit CHR ''('')],
     lits ''document.write'' @ [Star Space, One (Lit CHR ''('')],
     lits ''innerHTML'' @ [Star Space, One (Lit CHR ''='')],
     lits ''outerHTML'' @ [Star Space, One (Lit CHR ''='')],
     lits ''setTimeout'' @ [Star Space, One (Lit CHR ''(''), Star Space, One quotes],
     lits ''setInterval'' @ [Star Space, One (Lit CHR ''(''), Star Space, One quotes],
     lits ''location.href'' @ [Star Space, One (Lit CHR ''='')],
     lits ''document.cookie'' @ [Star Space, One (Lit CHR ''='')]]"

text \<open>\<^verbatim>\<open>self.dangerous_js_functions['medium_risk']\<close>\<close>

definition medium_risk :: "regex list" where
  "medium_risk =
    [lits ''.ajax'' @ [Star Space, One (Lit CHR ''('')],
     lits ''fetch'' @ [Star Space, One (Lit CHR ''('')],
     lits ''XMLHttpRequest'',
     lits ''.src'' @ [Star Space, One (Lit CHR ''='')],
     lits ''document.createElement'' @ [Star Space, One (Lit CHR ''('')]]"

text \<open>\<^verbatim>\<open>self.obfuscation_patterns\<close>\<close>

definition obfuscation_patterns :: "regex list" where
  "obfuscation_patterns =
    [lits ''String.fromCharCode'',
     lits ''atob'' @ [Star Space, One (Lit CHR ''('')],
     [One (Lit CHR ''[''), Star Space, Group 1 quotes, Plus (NoneOf [CHR 0x01]), Backref 1,
      Star Space, One (Lit CHR ''+''), Star Space, Group 2 quotes, Plus (NoneOf [CHR 0x02]),
      Backref 2, Star Space, One (Lit CHR '']'')]]"

text \<open>
  An entry of \<^verbatim>\<open>dangerous_functions\<close>. The analyzer writes the keys \<^verbatim>\<open>pattern\<close>,
  \<^verbatim>\<open>match\<close> and \<^verbatim>\<open>risk\<close>; the detector also reads a key \<^verbatim>\<open>context\<close>, which is
  \<open>None\<close> when the dictionary does not have it.
\<close>

record dangerous_function =
  df_pattern :: regex
  df_match :: string
  df_risk :: string
  df_context :: "string option"

text \<open>
  Entries of \<^verbatim>\<open>user_input_handling\<close> and \<^verbatim>\<open>suspicious_code_segments\<close>, two keys of
  a script result that the detector reads and this analyzer never writes.
\<close>

record input_handling =
  ih_context :: string
  ih_dangerous_usage :: bool
  ih_sanitization_detected :: bool
  ih_source :: "string option"

record code_segment =
  seg_match :: "string option"
  seg_function :: "string option"
  seg_type :: string

text \<open>The result of one script (\<^verbatim>\<open>ScriptVerdict\<close>); an absent key is \<open>None\<close>.\<close>

record script_result =
  sr_id :: string
  risk_level :: string
  risk_score :: int
  dangerous_functions :: "dangerous_function list"
  obfuscation_detected :: bool
  user_input_handling :: "input_handling list option"
  suspicious_code_segments :: "code_segment list option"

text \<open>
  The loop over one signature list: the matches of all signatures (the source's
  \<^verbatim>\<open>high_risk_matches\<close>) and one \<^verbatim>\<open>dangerous_functions\<close> entry for every signature
  that matched, with the text of its first match.
\<close>

fun scan_signatures :: "string \<Rightarrow> string \<Rightarrow> regex list \<Rightarrow> string list \<times> dangerous_function list" where
  "scan_signatures risk content [] = ([], [])"
| "scan_signatures risk content (pattern # ps) =
     (let (ms, dfs) = scan_signatures risk content ps in
      case finditer pattern content of
        [] \<Rightarrow> (ms, dfs)
      | m # rest \<Rightarrow>
          ((m # rest) @ ms,
           \<lparr>df_pattern = pattern, df_match = m, df_risk = risk, df_context = None\<rparr> # dfs))"

text \<open>Step 3: the first obfuscation signature found sets the flag.\<close>

definition detect_obfuscation :: "string \<Rightarrow> bool" where
  "detect_obfuscation content = list_ex (\<lambda>p. re_search p content \<noteq> None) obfuscation_patterns"

definition level_of :: "int \<Rightarrow> string" where
  "level_of score =
     (if 70 \<le> score then ''high''
      else if 40 \<le> score then ''medium''
      else if 10 \<le> score then ''low''
      else ''safe'')"

definition analyze_script_simplified :: "string \<Rightarrow> nat \<Rightarrow> script_result" where
  "analyze_script_simplified script_content script_id =
     (let (high_risk_matches, high_fs) = scan_signatures ''high'' script_content high_risk;
          medium_fs = (if high_risk_matches = []
                       then snd (scan_signatures ''medium'' script_content medium_risk)
                       else []);
          fs = high_fs @ medium_fs;
          obf = detect_obfuscation script_content;
          high_risk_count = int (length (filter (\<lambda>f. df_risk f = ''high'') fs));
          medium_risk_count = int (length (filter (\<lambda>f. df_risk f = ''medium'') fs));
          score0 = high_risk_count * 25 + medium_risk_count * 10;
          score = (if obf then score0 + 20 else score0)
      in \<lparr>sr_id = ''script_'' @ str_nat script_id,
          risk_level = level_of score,
          risk_score = min 100 score,
          dangerous_functions = fs,
          obfuscation_detected = obf,
          user_input_handling = None,
          suspicious_code_segments = None\<rparr>)"

text \<open>
  \<^verbatim>\<open>ScriptAnalyzer.analyze\<close>. A script of the crawler is a dictionary with the key
  \<^verbatim>\<open>type\<close> and, when it is inline, \<^verbatim>\<open>content\<close>.
\<close>

record script_ref =
  sc_type :: string
  sc_src :: "string option"
  sc_content :: "string option"

record script_analysis =
  scripts_analyzed :: nat
  high_risk_scripts :: nat
  medium_risk_scripts :: nat
  script_results :: "script_result list"

text \<open>The loop body of \<^verbatim>\<open>analyze\<close> for the script with index \<open>i\<close>.\<close>

definition analyze_one :: "script_analysis \<Rightarrow> nat \<times> script_ref \<Rightarrow> script_analysis" where
  "analyze_one results p =
     (case p of (i, script) \<Rightarrow>
        if sc_type script = ''external'' \<and> (sc_content script = None \<or> sc_content script = Some [])
        then results
        else (case sc_content script of
                None \<Rightarrow> results
              | Some content \<Rightarrow>
                  if content = [] then results
                  else (let sa = analyze_script_simplified content i;
                            results1 = results\<lparr>script_results := script_results results @ [sa]\<rparr>
                        in if risk_level sa = ''high''
                           then results1\<lparr>high_risk_scripts := high_risk_scripts results1 + 1\<rparr>
                           else if risk_level sa = ''medium''
                           then results1\<lparr>medium_risk_scripts := medium_risk_scripts results1 + 1\<rparr>
                           else results1)))"

definition ScriptAnalyzer_analyze :: "script_ref list \<Rightarrow> script_analysis" where
  "ScriptAnalyzer_analyze scripts =
     foldl analyze_one
       \<lparr>scripts_analyzed = length scripts, high_risk_scripts = 0, medium_risk_scripts = 0,
        script_results = []\<rparr>
       (enumerate 0 scripts)"

section \<open>The findings of the HTML parser\<close>

text \<open>
  An attribute value as BeautifulSoup hands it to the analyzer: a string, or a list of
  strings for the multi-valued attributes.
\<close>

datatype attr_value = Str string | Multi "string list"

record option_info =
  op_value :: string
  op_text :: string
  op_selected :: bool

text \<open>
  An entry of \<^verbatim>\<open>inputs\<close>. The keys \<^verbatim>\<open>type\<close> (input), \<^verbatim>\<open>value\<close> (input and
  textarea), \<^verbatim>\<open>options\<close> (select) and \<^verbatim>\<open>xss_vector\<close> are \<open>None\<close> where the
  dictionary does not have them.
\<close>

record input_info =
  in_tag :: string
  in_type :: "string option"
  in_name :: string
  in_id :: string
  in_value :: "string option"
  in_options :: "option_info list option"
  in_attributes :: "(string \<times> attr_value) list"
  in_suspicious :: bool
  in_parent_form :: bool
  in_xss_vector :: "string option"

record handler_info =
  eh_tag_name :: string
  eh_id :: string
  eh_class :: string
  eh_handlers :: "(string \<times> string) list"
  eh_content_preview :: string

record inline_script =
  is_id :: string
  is_content :: string
  is_attributes :: "(string \<times> attr_value) list"
  is_suspicious :: bool
  is_suspicious_patterns :: "string list"

record pattern_match =
  pm_pattern :: string
  pm_match :: string
  pm_position :: "nat \<times> nat"
  pm_context :: string

record link_info =
  ln_href :: string
  ln_text :: string
  ln_suspicious :: bool
  ln_xss_vector :: "string option"
  ln_has_parameters :: "bool option"
  ln_parameters :: "(string \<times> string) list option"

text \<open>
  The result of \<^verbatim>\<open>HTMLParser.parse\<close>, with the keys the detector reads (it never reads
  \<^verbatim>\<open>forms\<close>).
\<close>

record html_analysis =
  ha_inputs :: "input_info list"
  ha_event_handlers :: "handler_info list"
  ha_inline_scripts :: "inline_script list"
  ha_suspicious_patterns :: "pattern_match list"
  ha_links :: "link_info list"
  ha_base_url :: "string option"

section \<open>visual\_analyzer.py\<close>

record visual_field =
  vf_id :: string
  vf_x :: int
  vf_y :: int
  vf_width :: int
  vf_height :: int
  vf_type :: string

record visual_analysis =
  input_fields :: "visual_field list"
  image_dimensions :: "int \<times> int"

datatype py_error = KeyError string | OtherError string

text \<open>
  What the analyzer asks of the file system and of OpenCV: whether a path exists, the
  image \<^verbatim>\<open>cv2.imread\<close> decodes (\<open>None\<close> when it cannot, or an exception), the image's
  width and height, and the contour pipeline of \<^verbatim>\<open>_detect_input_fields\<close>, which is
  floating-point image processing and may raise.
\<close>

record 'img vision =
  path_exists :: "string \<Rightarrow> bool"
  imread :: "string \<Rightarrow> py_error + 'img option"
  image_shape :: "'img \<Rightarrow> int \<times> int"
  detect_input_fields :: "'img \<Rightarrow> py_error + visual_field list"

definition VisualAnalyzer_analyze :: "'img vision \<Rightarrow> string \<Rightarrow> visual_analysis option" where
  "VisualAnalyzer_analyze env screenshot_path =
     (if \<not> path_exists env screenshot_path then None
      else (case imread env screenshot_path of
              Inl e \<Rightarrow> None
            | Inr None \<Rightarrow> None
            | Inr (Some img) \<Rightarrow>
                (case detect_input_fields env img of
                   Inl e \<Rightarrow> None
                 | Inr found \<Rightarrow>
                     Some \<lparr>input_fields = found, image_dimensions = image_shape env img\<rparr>)))"

section \<open>xss\_detector.py\<close>

record script_evidence =
  ev_risk_level :: string
  ev_risk_score :: int
  ev_dangerous_functions_count :: nat
  ev_user_input_handling_count :: nat
  ev_suspicious_segments_count :: "nat option"
  ev_obfuscated :: "bool option"

text \<open>
  The keys of a vulnerability that depend on its type, in the order of the arguments:
  \<^item> \<open>InputHtml\<close> (no visual analysis): \<^verbatim>\<open>element_type\<close>, \<^verbatim>\<open>element_id\<close>,
    \<^verbatim>\<open>element_name\<close>, \<^verbatim>\<open>evidence\<close>;
  \<^item> \<open>InputVisual\<close>: \<^verbatim>\<open>element_type\<close>, \<^verbatim>\<open>element_id\<close>, \<^verbatim>\<open>element_name\<close>,
    \<^verbatim>\<open>visual_position\<close> (x, y, width, height), \<^verbatim>\<open>html_evidence\<close>, \<^verbatim>\<open>script_evidence\<close>;
  \<^item> \<open>EventHandler\<close>: \<^verbatim>\<open>element_type\<close>, \<^verbatim>\<open>element_id\<close>, \<^verbatim>\<open>element_class\<close>,
    \<^verbatim>\<open>handlers\<close>, \<^verbatim>\<open>evidence\<close>;
  \<^item> \<open>Script\<close>: \<^verbatim>\<open>script_id\<close>, \<^verbatim>\<open>risk_score\<close>, \<^verbatim>\<open>key_issues\<close> (absent for a
    medium-risk script), \<^verbatim>\<open>evidence\<close>;
  \<^item> \<open>InlineScript\<close>: \<^verbatim>\<open>script_id\<close>, \<^verbatim>\<open>patterns\<close>, \<^verbatim>\<open>evidence\<close>;
  \<^item> \<open>Url\<close>: \<^verbatim>\<open>link_url\<close>, \<^verbatim>\<open>link_text\<close>, \<^verbatim>\<open>evidence\<close>;
  \<^item> \<open>Pattern\<close>: \<^verbatim>\<open>pattern\<close>, \<^verbatim>\<open>match\<close>, \<^verbatim>\<open>context\<close>, \<^verbatim>\<open>evidence\<close>.
\<close>

datatype details =
    InputHtml string string string input_info
  | InputVisual string string string "int \<times> int \<times> int \<times> int" input_info "input_handling option"
  | EventHandler string string string "(string \<times> string) list" handler_info
  | Script string int "string list option" script_evidence
  | InlineScript string "string list" inline_script
  | Url string string link_info
  | Pattern string string string pattern_match

record vulnerability =
  v_type :: string
  v_subtype :: string
  v_url :: string
  v_vulnerability :: string
  v_severity :: string
  v_screenshot :: "string option"
  v_description :: string
  v_recommendation :: string
  v_details :: details

definition Alto :: string where
  "Alto = ''Alto''"

definition Medio :: string where
  "Medio = (''M'' @ [CHR 0xE9] @ ''dio'')"

text \<open>\<^verbatim>\<open>d.get(key, default)\<close> for a key that may be absent.\<close>

definition get_or :: "'a option \<Rightarrow> 'a \<Rightarrow> 'a" where
  "get_or v d = (case v of None \<Rightarrow> d | Some x \<Rightarrow> x)"

subsection \<open>Input fields\<close>

definition html_only_input :: "string \<Rightarrow> string option \<Rightarrow> input_info \<Rightarrow> vulnerability" where
  "html_only_input url screenshot_path input_elem =
     \<lparr>v_type = ''input_xss'',
      v_subtype = ''suspicious_attribute'',
      v_url = url,
      v_vulnerability = get_or (in_xss_vector input_elem) ''Atributo suspeito'',
      v_severity = Medio,
      v_screenshot = screenshot_path,
      v_description = ''Campo de entrada com potencial vulnerabilidade XSS: ''
         @ get_or (in_xss_vector input_elem) ''Atributo suspeito'',
      v_recommendation = (''Implementar valida'' @ [CHR 0xE7] @ [CHR 0xE3] @ ''o de entrada e sanitiza'' @ [CHR 0xE7] @ [CHR 0xE3] @ ''o dos dados do usu'' @ [CHR 0xE1] @ ''rio''),
      v_details = InputHtml (in_tag input_elem) (in_id input_elem) (in_name input_elem) input_elem\<rparr>"

text \<open>\<^verbatim>\<open>_find_matching_html_elements\<close>\<close>

definition find_matching_html_elements :: "visual_field \<Rightarrow> input_info list \<Rightarrow> input_info list" where
  "find_matching_html_elements visual_element html_elements =
     (if vf_type visual_element = ''text_input''
      then filter (\<lambda>html_elem.
             (in_tag html_elem = ''input'' \<and>
              get_or (in_type html_elem) ''text'' \<in> set [''text'', ''password'', ''email'', ''search''])
             \<or> in_tag html_elem = ''textarea'') html_elements
      else html_elements)"

text \<open>
  The search of one script result for a dangerous use of the field: the inner loop stops
  at the first entry whose context names the field's id (or, when it does not name the id,
  the field's name) and whose \<^verbatim>\<open>dangerous_usage\<close> is set.
\<close>

definition names_field :: "string \<Rightarrow> string \<Rightarrow> input_handling \<Rightarrow> bool" where
  "names_field input_id input_name input_handling =
     (if input_id \<noteq> [] \<and> contains input_id (ih_context input_handling)
      then ih_dangerous_usage input_handling
      else if input_name \<noteq> [] \<and> contains input_name (ih_context input_handling)
      then ih_dangerous_usage input_handling
      else False)"

definition usage_step :: "string \<Rightarrow> string \<Rightarrow> bool \<times> input_handling option \<Rightarrow> script_result
    \<Rightarrow> bool \<times> input_handling option" where
  "usage_step input_id input_name st script_result =
     (case user_input_handling script_result of
        None \<Rightarrow> st
      | Some hs \<Rightarrow>
          (case find (names_field input_id input_name) hs of
             None \<Rightarrow> st
           | Some input_handling \<Rightarrow> (True, Some input_handling)))"

definition visual_input_vulnerability :: "string \<Rightarrow> string option \<Rightarrow> script_analysis \<Rightarrow> visual_field \<Rightarrow> input_info
    \<Rightarrow> vulnerability list" where
  "visual_input_vulnerability url screenshot_path sa visual_input html_input =
     (let (dangerous_usage, script_evidence) =
            foldl (usage_step (in_id html_input) (in_name html_input)) (False, None) (script_results sa)
      in if in_suspicious html_input \<or> dangerous_usage
         then [\<lparr>v_type = ''input_xss'',
                v_subtype = (if dangerous_usage then ''input_with_dangerous_usage'' else ''suspicious_input''),
                v_url = url,
                v_vulnerability =
                  (if in_suspicious html_input
                   then get_or (in_xss_vector html_input) (''Manipula'' @ [CHR 0xE7] @ [CHR 0xE3] @ ''o insegura de entrada'')
                   else ''Uso perigoso em script''),
                v_severity = (if dangerous_usage then Alto else Medio),
                v_screenshot = screenshot_path,
                v_description = ''Campo de entrada com potencial vulnerabilidade XSS. '' @
                  (if in_suspicious html_input
                   then ''Encontrado: '' @ get_or (in_xss_vector html_input) ''''
                   else (''Entrada usada em contexto perigoso sem sanitiza'' @ [CHR 0xE7] @ [CHR 0xE3] @ ''o adequada.'')),
                v_recommendation = (''Implementar valida'' @ [CHR 0xE7] @ [CHR 0xE3] @ ''o de entrada e sanitiza'' @ [CHR 0xE7] @ [CHR 0xE3] @ ''o dos dados do usu'' @ [CHR 0xE1] @ ''rio. Utilizar fun'' @ [CHR 0xE7] @ [CHR 0xF5] @ ''es seguras para manipula'' @ [CHR 0xE7] @ [CHR 0xE3] @ ''o do DOM.''),
                v_details = InputVisual (in_tag html_input) (in_id html_input) (in_name html_input)
                  (vf_x visual_input, vf_y visual_input, vf_width visual_input, vf_height visual_input)
                  html_input script_evidence\<rparr>]
         else [])"

text \<open>\<^verbatim>\<open>_find_input_vulnerabilities\<close>\<close>

definition find_input_vulnerabilities :: "string \<Rightarrow> visual_analysis option \<Rightarrow> html_analysis
    \<Rightarrow> script_analysis \<Rightarrow> string option \<Rightarrow> vulnerability list" where
  "find_input_vulnerabilities url visual html sa screenshot_path =
     (case visual of
        None \<Rightarrow> map (html_only_input url screenshot_path) (filter in_suspicious (ha_inputs html))
      | Some va \<Rightarrow>
          concat (map (\<lambda>vi. concat (map (visual_input_vulnerability url screenshot_path sa vi)
                                 (find_matching_html_elements vi (ha_inputs html))))
                      (input_fields va)))"

subsection \<open>Event handlers\<close>

definition high_risk_events :: "string list" where
  "high_risk_events = [''onclick'', ''onkeypress'', ''onkeyup'', ''onkeydown'', ''onchange'',
     ''onsubmit'', ''onload'', ''onerror'']"

definition handler_dangers :: "string list" where
  "handler_dangers = [''eval('', ''function('', ''document.write'', ''innerHTML'', ''location'']"

text \<open>The test that sets \<^verbatim>\<open>critical_handlers\<close> and leaves the loop over the handlers.\<close>

definition critical :: "string \<times> string \<Rightarrow> bool" where
  "critical h =
     (case h of (event, code) \<Rightarrow>
        lower event \<in> set high_risk_events \<and>
        list_ex (\<lambda>danger. contains danger (lower code)) handler_dangers)"

definition event_vulnerability :: "string \<Rightarrow> string option \<Rightarrow> handler_info \<Rightarrow> vulnerability" where
  "event_vulnerability url screenshot_path handler =
     (let found = find critical (eh_handlers handler);
          critical_handlers = (found \<noteq> None);
          critical_reason =
            (case found of
               None \<Rightarrow> ''''
             | Some (event, code) \<Rightarrow>
                 ''Manipulador de evento '' @ event @ ('' cont'' @ [CHR 0xE9] @ ''m c'' @ [CHR 0xF3] @ ''digo perigoso: '') @ take 50 code @ ''...'')
      in \<lparr>v_type = ''event_handler_xss'',
          v_subtype = (if critical_handlers then ''critical_handler'' else ''suspicious_handler''),
          v_url = url,
          v_vulnerability =
            (if critical_handlers then critical_reason else ''Manipulador de evento pode permitir XSS''),
          v_severity = (if critical_handlers then Alto else Medio),
          v_screenshot = screenshot_path,
          v_description =
            (if critical_handlers then critical_reason
             else (''Manipulador de evento que pode permitir a execu'' @ [CHR 0xE7] @ [CHR 0xE3] @ ''o de c'' @ [CHR 0xF3] @ ''digo malicioso'')),
          v_recommendation = (''Evitar c'' @ [CHR 0xF3] @ ''digo JavaScript inline em atributos de eventos. Implementar valida'' @ [CHR 0xE7] @ [CHR 0xE3] @ ''o e sanitiza'' @ [CHR 0xE7] @ [CHR 0xE3] @ ''o.''),
          v_details = EventHandler (eh_tag_name handler) (eh_id handler) (eh_class handler)
            (eh_handlers handler) handler\<rparr>)"

text \<open>\<^verbatim>\<open>_find_event_vulnerabilities\<close>\<close>

definition find_event_vulnerabilities :: "string \<Rightarrow> html_analysis \<Rightarrow> script_analysis \<Rightarrow> string option
    \<Rightarrow> vulnerability list" where
  "find_event_vulnerabilities url html sa screenshot_path =
     map (event_vulnerability url screenshot_path) (ha_event_handlers html)"

subsection \<open>Scripts\<close>

text \<open>A loop that appends to \<^verbatim>\<open>key_issues\<close> and may raise: the first error ends it.\<close>

fun collect :: "('a \<Rightarrow> py_error + string list) \<Rightarrow> 'a list \<Rightarrow> py_error + string list" where
  "collect f [] = Inr []"
| "collect f (x # xs) =
     (case f x of
        Inl e \<Rightarrow> Inl e
      | Inr ys \<Rightarrow> (case collect f xs of Inl e \<Rightarrow> Inl e | Inr zs \<Rightarrow> Inr (ys @ zs)))"

definition function_issue :: "dangerous_function \<Rightarrow> py_error + string list" where
  "function_issue func =
     (if df_risk func = ''high''
      then (case df_context func of
              None \<Rightarrow> Inl (KeyError ''context'')
            | Some ctx \<Rightarrow>
                Inr [(''Fun'' @ [CHR 0xE7] @ [CHR 0xE3] @ ''o perigosa: '') @ df_match func @ '' em contexto: '' @ ctx])
      else Inr [])"

definition input_issue :: "input_handling \<Rightarrow> py_error + string list" where
  "input_issue input_handler =
     (if ih_dangerous_usage input_handler \<and> \<not> ih_sanitization_detected input_handler
      then (case ih_source input_handler of
              None \<Rightarrow> Inl (KeyError ''source'')
            | Some src \<Rightarrow> Inr [(''Manipula'' @ [CHR 0xE7] @ [CHR 0xE3] @ ''o insegura de entrada: '') @ src])
      else Inr [])"

definition segment_issue :: "code_segment \<Rightarrow> py_error + string list" where
  "segment_issue segment =
     (case seg_match segment of
        Some m \<Rightarrow> Inr [(''C'' @ [CHR 0xF3] @ ''digo suspeito: '') @ m]
      | None \<Rightarrow>
          (case seg_function segment of
             None \<Rightarrow> Inl (KeyError ''function'')
           | Some f \<Rightarrow> Inr [(''C'' @ [CHR 0xF3] @ ''digo suspeito: '') @ f]))"

definition key_issues_of :: "script_result \<Rightarrow> py_error + string list" where
  "key_issues_of script =
     (case collect function_issue (take 3 (dangerous_functions script)) of
        Inl e \<Rightarrow> Inl e
      | Inr a \<Rightarrow>
          (case collect input_issue (take 3 (get_or (user_input_handling script) [])) of
             Inl e \<Rightarrow> Inl e
           | Inr b \<Rightarrow>
               (case collect segment_issue (take 3 (get_or (suspicious_code_segments script) [])) of
                  Inl e \<Rightarrow> Inl e
                | Inr c \<Rightarrow> Inr (a @ b @ c))))"

definition script_subtype :: "script_result \<Rightarrow> string" where
  "script_subtype script =
     (if obfuscation_detected script then ''obfuscated_script''
      else if list_ex (\<lambda>segment. contains ''user_input_with_dangerous_function'' (seg_type segment))
                (get_or (suspicious_code_segments script) [])
      then ''unsafe_input_handling''
      else ''high_risk_script'')"

text \<open>The body of the loop over the script results: the records one result adds.\<close>

definition script_vulnerability :: "string \<Rightarrow> string option \<Rightarrow> script_result
    \<Rightarrow> py_error + vulnerability list" where
  "script_vulnerability url screenshot_path script =
     (let n_funcs = length (dangerous_functions script);
          n_inputs = length (get_or (user_input_handling script) []);
          n_segments = length (get_or (suspicious_code_segments script) [])
      in if risk_level script = ''high''
         then (case key_issues_of script of
                 Inl e \<Rightarrow> Inl e
               | Inr key_issues \<Rightarrow>
                   Inr [\<lparr>v_type = ''script_xss'',
                         v_subtype = script_subtype script,
                         v_url = url,
                         v_vulnerability = (''Script cont'' @ [CHR 0xE9] @ ''m c'' @ [CHR 0xF3] @ ''digo que pode permitir ataques XSS''),
                         v_severity = Alto,
                         v_screenshot = screenshot_path,
                         v_description =
                           (''Script de alto risco com pontua'' @ [CHR 0xE7] @ [CHR 0xE3] @ ''o '') @ str_int (risk_score script) @ ''/100. ''
                           @ (''Cont'' @ [CHR 0xE9] @ ''m '') @ str_nat n_funcs @ ('' fun'' @ [CHR 0xE7] @ [CHR 0xF5] @ ''es perigosas, '')
                           @ str_nat n_inputs @ ('' manipula'' @ [CHR 0xE7] @ [CHR 0xF5] @ ''es de entrada de usu'' @ [CHR 0xE1] @ ''rio, e '')
                           @ str_nat n_segments @ ('' segmentos de c'' @ [CHR 0xF3] @ ''digo suspeitos.''),
                         v_recommendation =
                           (''Revisar o c'' @ [CHR 0xF3] @ ''digo JavaScript, implementar sanitiza'' @ [CHR 0xE7] @ [CHR 0xE3] @ ''o adequada para entradas de usu'' @ [CHR 0xE1] @ ''rio, '')
                           @ (''e evitar fun'' @ [CHR 0xE7] @ [CHR 0xF5] @ ''es perigosas como eval(), document.write(), e atribui'' @ [CHR 0xE7] @ [CHR 0xF5] @ ''es diretas a innerHTML.''),
                         v_details = Script (sr_id script) (risk_score script) (Some key_issues)
                           \<lparr>ev_risk_level = risk_level script,
                            ev_risk_score = risk_score script,
                            ev_dangerous_functions_count = n_funcs,
                            ev_user_input_handling_count = n_inputs,
                            ev_suspicious_segments_count = Some n_segments,
                            ev_obfuscated = Some (obfuscation_detected script)\<rparr>\<rparr>])
         else if risk_level script = ''medium'' \<and> 60 \<le> risk_score script
         then Inr [\<lparr>v_type = ''script_xss'',
                    v_subtype = ''medium_risk_script'',
                    v_url = url,
                    v_vulnerability = (''Script cont'' @ [CHR 0xE9] @ ''m c'' @ [CHR 0xF3] @ ''digo potencialmente inseguro''),
                    v_severity = Medio,
                    v_screenshot = screenshot_path,
                    v_description =
                      (''Script de m'' @ [CHR 0xE9] @ ''dio risco com pontua'' @ [CHR 0xE7] @ [CHR 0xE3] @ ''o '') @ str_int (risk_score script)
                      @ ''/100 que pode conter vulnerabilidades.'',
                    v_recommendation = (''Revisar o c'' @ [CHR 0xF3] @ ''digo JavaScript e implementar sanitiza'' @ [CHR 0xE7] @ [CHR 0xE3] @ ''o adequada para entradas de usu'' @ [CHR 0xE1] @ ''rio.''),
                    v_details = Script (sr_id script) (risk_score script) None
                      \<lparr>ev_risk_level = risk_level script,
                       ev_risk_score = risk_score script,
                       ev_dangerous_functions_count = n_funcs,
                       ev_user_input_handling_count = n_inputs,
                       ev_suspicious_segments_count = None,
                       ev_obfuscated = None\<rparr>\<rparr>]
         else Inr [])"

fun script_vulnerabilities :: "string \<Rightarrow> string option \<Rightarrow> script_result list
    \<Rightarrow> py_error + vulnerability list" where
  "script_vulnerabilities url screenshot_path [] = Inr []"
| "script_vulnerabilities url screenshot_path (script # rest) =
     (case script_vulnerability url screenshot_path script of
        Inl e \<Rightarrow> Inl e
      | Inr vs \<Rightarrow>
          (case script_vulnerabilities url screenshot_path rest of
             Inl e \<Rightarrow> Inl e
           | Inr ws \<Rightarrow> Inr (vs @ ws)))"

definition inline_script_vulnerability :: "string \<Rightarrow> string option \<Rightarrow> inline_script \<Rightarrow> vulnerability" where
  "inline_script_vulnerability url screenshot_path script =
     (let patterns = is_suspicious_patterns script
      in \<lparr>v_type = ''inline_script_xss'',
          v_subtype = ''suspicious_inline_script'',
          v_url = url,
          v_vulnerability = (''Script inline cont'' @ [CHR 0xE9] @ ''m padr'' @ [CHR 0xF5] @ ''es suspeitos''),
          v_severity = Medio,
          v_screenshot = screenshot_path,
          v_description = ''Script inline com '' @ str_nat (length patterns)
            @ ('' padr'' @ [CHR 0xF5] @ ''es suspeitos que podem indicar vulnerabilidades XSS.''),
          v_recommendation = (''Revisar script inline. Considerar mover para arquivo externo e implementar valida'' @ [CHR 0xE7] @ [CHR 0xE3] @ ''o adequada.''),
          v_details = InlineScript (is_id script) (take 5 patterns) script\<rparr>)"

text \<open>\<^verbatim>\<open>_find_script_vulnerabilities\<close>\<close>

definition find_script_vulnerabilities :: "string \<Rightarrow> html_analysis \<Rightarrow> script_analysis \<Rightarrow> string option
    \<Rightarrow> py_error + vulnerability list" where
  "find_script_vulnerabilities url html sa screenshot_path =
     (case script_vulnerabilities url screenshot_path (script_results sa) of
        Inl e \<Rightarrow> Inl e
      | Inr vs \<Rightarrow>
          Inr (vs @ map (inline_script_vulnerability url screenshot_path)
                      (filter is_suspicious (ha_inline_scripts html))))"

subsection \<open>Links and markup patterns\<close>

definition link_vulnerability :: "string \<Rightarrow> string option \<Rightarrow> link_info \<Rightarrow> vulnerability" where
  "link_vulnerability url screenshot_path link =
     \<lparr>v_type = ''url_xss'',
      v_subtype = ''suspicious_link'',
      v_url = url,
      v_vulnerability = get_or (ln_xss_vector link) ''Link suspeito'',
      v_severity = Medio,
      v_screenshot = screenshot_path,
      v_description = (''Link cont'' @ [CHR 0xE9] @ ''m potencial vetor de XSS: '') @ get_or (ln_xss_vector link) ''Link suspeito'',
      v_recommendation = ''Validar e sanitizar URLs antes de renderizar links.'',
      v_details = Url (ln_href link) (ln_text link) link\<rparr>"

definition pattern_vulnerability :: "string \<Rightarrow> string option \<Rightarrow> pattern_match \<Rightarrow> vulnerability" where
  "pattern_vulnerability url screenshot_path pattern =
     \<lparr>v_type = ''pattern_xss'',
      v_subtype = ''suspicious_html_pattern'',
      v_url = url,
      v_vulnerability = (''Padr'' @ [CHR 0xE3] @ ''o de c'' @ [CHR 0xF3] @ ''digo suspeito encontrado''),
      v_severity = Medio,
      v_screenshot = screenshot_path,
      v_description = (''Padr'' @ [CHR 0xE3] @ ''o de c'' @ [CHR 0xF3] @ ''digo suspeito que pode indicar vulnerabilidade XSS: '') @ pm_match pattern,
      v_recommendation = (''Revisar o c'' @ [CHR 0xF3] @ ''digo HTML e implementar sanitiza'' @ [CHR 0xE7] @ [CHR 0xE3] @ ''o adequada.''),
      v_details = Pattern (pm_pattern pattern) (pm_match pattern) (pm_context pattern) pattern\<rparr>"

text \<open>\<^verbatim>\<open>_find_url_vulnerabilities\<close>\<close>

definition find_url_vulnerabilities :: "string \<Rightarrow> html_analysis \<Rightarrow> script_analysis \<Rightarrow> string option
    \<Rightarrow> vulnerability list" where
  "find_url_vulnerabilities url html sa screenshot_path =
     map (link_vulnerability url screenshot_path) (filter ln_suspicious (ha_links html))
     @ map (pattern_vulnerability url screenshot_path) (ha_suspicious_patterns html)"

subsection \<open>The four passes together\<close>

text \<open>\<^verbatim>\<open>_correlate_analyses\<close>: an exception of a pass leaves the function.\<close>

definition correlate_analyses :: "string \<Rightarrow> visual_analysis option \<Rightarrow> html_analysis \<Rightarrow> script_analysis
    \<Rightarrow> string option \<Rightarrow> py_error + vulnerability list" where
  "correlate_analyses url visual html sa screenshot_path =
     (let input_vulnerabilities = find_input_vulnerabilities url visual html sa screenshot_path;
          event_vulnerabilities = find_event_vulnerabilities url html sa screenshot_path
      in case find_script_vulnerabilities url html sa screenshot_path of
           Inl e \<Rightarrow> Inl e
         | Inr script_vulns \<Rightarrow>
             Inr (input_vulnerabilities @ event_vulnerabilities @ script_vulns
                  @ find_url_vulnerabilities url html sa screenshot_path))"

text \<open>
  A page of the crawler. \<open>pd_html\<close> stands for the markup together with
  \<^verbatim>\<open>HTMLParser.parse\<close>: it is the result of parsing the page, which never raises.
\<close>

record page_data =
  pd_url :: string
  pd_html :: html_analysis
  pd_scripts :: "script_ref list"
  pd_screenshot_path :: "string option"

text \<open>
  \<^verbatim>\<open>XSSDetector.analyze\<close>. The outer \<^verbatim>\<open>try\<close> turns an exception of the correlation into
  the empty list. (The inner \<^verbatim>\<open>try\<close> around the script analysis has nothing to catch:
  \<open>ScriptAnalyzer_analyze\<close> is total.)
\<close>

definition XSSDetector_analyze :: "'img vision \<Rightarrow> page_data \<Rightarrow> vulnerability list" where
  "XSSDetector_analyze env page =
     (let visual =
            (case pd_screenshot_path page of
               None \<Rightarrow> None
             | Some path \<Rightarrow>
                 if path \<noteq> [] \<and> path_exists env path then VisualAnalyzer_analyze env path else None);
          sa = ScriptAnalyzer_analyze (pd_scripts page)
      in case correlate_analyses (pd_url page) visual (pd_html page) sa (pd_screenshot_path page) of
           Inl e \<Rightarrow> []
         | Inr xss_vulnerabilities \<Rightarrow> xss_vulnerabilities)"

subsection \<open>The stand-alone report\<close>

record report_entry =
  re_type :: string
  re_subtype :: string
  re_url :: string
  re_severity :: string
  re_description :: string
  re_recommendation :: string

record report_data =
  rd_timestamp :: string
  rd_total_vulnerabilities :: nat
  rd_vulnerabilities_by_type :: "(string \<times> nat) list"
  rd_vulnerabilities_by_severity :: "(string \<times> nat) list"
  rd_vulnerabilities :: "report_entry list"

text \<open>
  The file system as the report writer sees it: the directories and the report files
  with their contents. (Errors of the operating system are not modelled.)
\<close>

record filesystem =
  fs_dirs :: "string set"
  fs_files :: "string \<Rightarrow> report_data option"

text \<open>
  \<^verbatim>\<open>if k not in d: d[k] = 0\<close> followed by \<^verbatim>\<open>d[k] += 1\<close>, on a dictionary kept in
  insertion order.
\<close>

fun count_up :: "string \<Rightarrow> (string \<times> nat) list \<Rightarrow> (string \<times> nat) list" where
  "count_up k [] = [(k, 1)]"
| "count_up k ((k', n) # d) = (if k = k' then (k', n + 1) # d else (k', n) # count_up k d)"

definition report_step :: "report_data \<Rightarrow> vulnerability \<Rightarrow> report_data" where
  "report_step rd vuln =
     rd\<lparr>rd_vulnerabilities_by_type := count_up (v_type vuln) (rd_vulnerabilities_by_type rd),
        rd_vulnerabilities_by_severity := count_up (v_severity vuln) (rd_vulnerabilities_by_severity rd),
        rd_vulnerabilities := rd_vulnerabilities rd @
          [\<lparr>re_type = v_type vuln, re_subtype = v_subtype vuln, re_url = v_url vuln,
            re_severity = v_severity vuln, re_description = v_description vuln,
            re_recommendation = v_recommendation vuln\<rparr>]\<rparr>"

text \<open>\<^verbatim>\<open>os.path.dirname\<close> (POSIX)\<close>

definition dirname :: "string \<Rightarrow> string" where
  "dirname p =
     (let head = rev (dropWhile (\<lambda>c. c \<noteq> CHR ''/'') (rev p))
      in if head \<noteq> [] \<and> \<not> list_all (\<lambda>c. c = CHR ''/'') head
         then rev (dropWhile (\<lambda>c. c = CHR ''/'') (rev head))
         else head)"

text \<open>
  \<^verbatim>\<open>XSSDetector.generate_report\<close>, with the clock reading \<open>now\<close>: the returned path
  (\<open>None\<close> for Python's \<^verbatim>\<open>None\<close>) and the file system afterwards.
\<close>

definition generate_report :: "string \<Rightarrow> vulnerability list \<Rightarrow> string \<Rightarrow> filesystem
    \<Rightarrow> string option \<times> filesystem" where
  "generate_report now vulnerabilities output_path fs =
     (if vulnerabilities = [] then (None, fs)
      else (let dir = (if dirname output_path \<noteq> [] then dirname output_path else ''reports'');
                report = foldl report_step
                  \<lparr>rd_timestamp = now,
                   rd_total_vulnerabilities = length vulnerabilities,
                   rd_vulnerabilities_by_type = [],
                   rd_vulnerabilities_by_severity = [],
                   rd_vulnerabilities = []\<rparr> vulnerabilities
            in (Some output_path,
                fs\<lparr>fs_dirs := insert dir (fs_dirs fs),
                   fs_files := (fs_files fs)(output_path := Some report)\<rparr>)))"

section \<open>report\_generator.py\<close>

text \<open>
  \<^verbatim>\<open>_deduplicate_vulnerabilities\<close>: the loop with the set \<^verbatim>\<open>seen\<close> of the keys met so far.
  Every record of the detector has the three keys, so the defaults of \<^verbatim>\<open>get\<close> never
  apply.
\<close>

definition dedup_key :: "vulnerability \<Rightarrow> string \<times> string \<times> string" where
  "dedup_key vuln = (v_url vuln, v_type vuln, v_description vuln)"

fun dedup_from :: "(string \<times> string \<times> string) set \<Rightarrow> vulnerability list \<Rightarrow> vulnerability list" where
  "dedup_from seen [] = []"
| "dedup_from seen (vuln # rest) =
     (if dedup_key vuln \<notin> seen
      then vuln # dedup_from (insert (dedup_key vuln) seen) rest
      else dedup_from seen rest)"

definition deduplicate_vulnerabilities :: "vulnerability list \<Rightarrow> vulnerability list" where
  "deduplicate_vulnerabilities vulnerabilities = dedup_from {} vulnerabilities"

section \<open>html\_parser.py\<close>

text \<open>
  The tree BeautifulSoup builds with \<^verbatim>\<open>html.parser\<close>: an element has its name, its
  attributes in the order of the markup and its children. The parser lower-cases tag and
  attribute names, gives an attribute without a value the empty string, and keeps one
  value for each attribute name.
\<close>

datatype node = Element string "(string \<times> string) list" "node list" | NavigableString string

fun node_name :: "node \<Rightarrow> string" where
  "node_name (Element n as cs) = n"
| "node_name (NavigableString s) = []"

fun node_attrs :: "node \<Rightarrow> (string \<times> string) list" where
  "node_attrs (Element n as cs) = as"
| "node_attrs (NavigableString s) = []"

fun node_children :: "node \<Rightarrow> node list" where
  "node_children (Element n as cs) = cs"
| "node_children (NavigableString s) = []"

text \<open>
  The attributes whose value BeautifulSoup splits at whitespace into a list
  (the \<^verbatim>\<open>cdata_list_attributes\<close> of its HTML tree builder).
\<close>

definition cdata_list_attribute :: "string \<Rightarrow> string \<Rightarrow> bool" where
  "cdata_list_attribute tag attr =
     (attr \<in> set [''class'', ''accesskey'', ''dropzone'']
      \<or> (tag \<in> set [''a'', ''link''] \<and> attr \<in> set [''rel'', ''rev''])
      \<or> (tag \<in> set [''td'', ''th''] \<and> attr = ''headers'')
      \<or> (tag = ''form'' \<and> attr = ''accept-charset'')
      \<or> (tag = ''object'' \<and> attr = ''archive'')
      \<or> (tag = ''area'' \<and> attr = ''rel'')
      \<or> (tag = ''icon'' \<and> attr = ''sizes'')
      \<or> (tag = ''iframe'' \<and> attr = ''sandbox'')
      \<or> (tag = ''output'' \<and> attr = ''for''))"

text \<open>The maximal runs of non-whitespace characters; \<open>w\<close> is the run being read.\<close>

fun split_ws :: "string \<Rightarrow> string \<Rightarrow> string list" where
  "split_ws w [] = (if w = [] then [] else [w])"
| "split_ws w (c # cs) =
     (if isspace c then (if w = [] then split_ws [] cs else w # split_ws [] cs)
      else split_ws (w @ [c]) cs)"

text \<open>The value of an attribute as the analyzer reads it from \<^verbatim>\<open>tag.attrs\<close>.\<close>

definition attr_view :: "string \<Rightarrow> string \<Rightarrow> string \<Rightarrow> attr_value" where
  "attr_view tag attr raw = (if cdata_list_attribute tag attr then Multi (split_ws [] raw) else Str raw)"

text \<open>
  An attribute value inside an f-string. No path of the analyzer formats a list (an event
  attribute is never multi-valued); for a list the model writes the items in Python's
  list notation without escaping their characters.
\<close>

fun join :: "string \<Rightarrow> string list \<Rightarrow> string" where
  "join sep [] = []"
| "join sep [x] = x"
| "join sep (x # y # ys) = x @ sep @ join sep (y # ys)"

fun str_value :: "attr_value \<Rightarrow> string" where
  "str_value (Str s) = s"
| "str_value (Multi l) = ''['' @ join '', '' (map (\<lambda>s. [CHR 0x27] @ s @ [CHR 0x27]) l) @ '']''"

text \<open>\<^verbatim>\<open>tag.get(key, default)\<close> for an attribute that is not multi-valued.\<close>

definition attr_get :: "node \<Rightarrow> string \<Rightarrow> string \<Rightarrow> string" where
  "attr_get tag key dflt = get_or (map_of (node_attrs tag) key) dflt"

text \<open>\<^verbatim>\<open>d[key] = value\<close> on a dictionary kept in insertion order.\<close>

fun dict_set :: "('k \<times> 'v) list \<Rightarrow> 'k \<Rightarrow> 'v \<Rightarrow> ('k \<times> 'v) list" where
  "dict_set [] k v = [(k, v)]"
| "dict_set ((k', v') # d) k v = (if k = k' then (k', v) # d else (k', v') # dict_set d k v)"

text \<open>
  The elements below a node in document order, each with the names of its ancestors
  (the parent first).
\<close>

fun tags_of :: "string list \<Rightarrow> node \<Rightarrow> (string list \<times> node) list" where
  "tags_of anc (NavigableString s) = []"
| "tags_of anc (Element n as cs) = (anc, Element n as cs) # concat (map (tags_of (n # anc)) cs)"

text \<open>A document is the list of the nodes at its top; their parent is named \<^verbatim>\<open>[document]\<close>.\<close>

definition soup_tags :: "node list \<Rightarrow> (string list \<times> node) list" where
  "soup_tags soup = concat (map (tags_of [''[document]'']) soup)"

text \<open>\<^verbatim>\<open>soup.find_all(name)\<close> and \<^verbatim>\<open>tag.find_all(name)\<close>\<close>

definition find_all :: "string \<Rightarrow> node list \<Rightarrow> (string list \<times> node) list" where
  "find_all name soup = filter (\<lambda>p. node_name (snd p) = name) (soup_tags soup)"

definition find_all_in :: "string \<Rightarrow> string list \<times> node \<Rightarrow> (string list \<times> node) list" where
  "find_all_in name p =
     filter (\<lambda>q. node_name (snd q) = name)
       (concat (map (tags_of (node_name (snd p) # fst p)) (node_children (snd p))))"

text \<open>\<^verbatim>\<open>tag.string\<close>\<close>

fun node_string :: "node \<Rightarrow> string option" where
  "node_string (NavigableString s) = Some s"
| "node_string (Element n as cs) = (case cs of [c] \<Rightarrow> node_string c | _ \<Rightarrow> None)"

text \<open>\<^verbatim>\<open>tag.get_text(strip=True)\<close>\<close>

fun all_strings :: "node \<Rightarrow> string list" where
  "all_strings (NavigableString s) = [s]"
| "all_strings (Element n as cs) = concat (map all_strings cs)"

definition get_text_strip :: "node \<Rightarrow> string" where
  "get_text_strip tag = concat (filter (\<lambda>s. s \<noteq> []) (map strip (all_strings tag)))"

text \<open>\<^verbatim>\<open>tag.parent.name == 'form' or tag.find_parent('form') is not None\<close>\<close>

definition parent_form :: "string list \<Rightarrow> bool" where
  "parent_form anc = ((case anc of [] \<Rightarrow> False | p # _ \<Rightarrow> p = ''form'') \<or> ''form'' \<in> set anc)"

text \<open>\<^verbatim>\<open>self.event_attributes\<close>\<close>

definition event_attributes :: "string list" where
  "event_attributes =
    [''onload'', ''onerror'', ''onclick'', ''onmouseover'', ''onmouseout'',
     ''onkeypress'', ''onkeydown'', ''onkeyup'', ''onchange'', ''onfocus'',
     ''onblur'', ''onsubmit'', ''onreset'', ''ondblclick'', ''oncontextmenu'',
     ''ondrag'', ''ondrop'', ''onmousedown'', ''onmouseup'', ''onpaste'',
     ''oncut'', ''oncopy'', ''onselect'', ''onready'', ''onunload'']"

subsection \<open>Input elements\<close>

text \<open>The body of the loop over the attributes of an \<^verbatim>\<open>input\<close> tag.\<close>

definition input_attr_step :: "input_info \<Rightarrow> string \<times> string \<Rightarrow> input_info" where
  "input_attr_step info a =
     (case a of (attr, raw) \<Rightarrow>
        let value = attr_view ''input'' attr raw;
            info1 = (if attr \<notin> set [''type'', ''name'', ''id'', ''value'']
                     then info\<lparr>in_attributes := dict_set (in_attributes info) attr value\<rparr>
                     else info);
            info2 = (if attr \<in> set event_attributes
                     then info1\<lparr>in_suspicious := True,
                            in_xss_vector := Some (''Event handler: '' @ attr @ ''='' @ str_value value)\<rparr>
                     else info1)
        in (case value of
              Str s \<Rightarrow>
                if contains ''javascript:'' (lower s)
                then info2\<lparr>in_suspicious := True,
                       in_xss_vector := Some (''JavaScript in attribute: '' @ attr @ ''='' @ s)\<rparr>
                else info2
            | Multi l \<Rightarrow> info2))"

definition analyze_input :: "string list \<times> node \<Rightarrow> input_info" where
  "analyze_input p =
     (case p of (anc, tag) \<Rightarrow>
        foldl input_attr_step
          \<lparr>in_tag = ''input'',
           in_type = Some (attr_get tag ''type'' ''text''),
           in_name = attr_get tag ''name'' '''',
           in_id = attr_get tag ''id'' '''',
           in_value = Some (attr_get tag ''value'' ''''),
           in_options = None,
           in_attributes = [],
           in_suspicious = False,
           in_parent_form = parent_form anc,
           in_xss_vector = None\<rparr>
          (node_attrs tag))"

text \<open>The body of the loop over the attributes of a \<^verbatim>\<open>textarea\<close> or \<^verbatim>\<open>select\<close> tag.\<close>

definition other_attr_step :: "string \<Rightarrow> input_info \<Rightarrow> string \<times> string \<Rightarrow> input_info" where
  "other_attr_step tag_name info a =
     (case a of (attr, raw) \<Rightarrow>
        let value = attr_view tag_name attr raw;
            info1 = (if attr \<notin> set [''name'', ''id'']
                     then info\<lparr>in_attributes := dict_set (in_attributes info) attr value\<rparr>
                     else info)
        in if attr \<in> set event_attributes
           then info1\<lparr>in_suspicious := True,
                  in_xss_vector := Some (''Event handler: '' @ attr @ ''='' @ str_value value)\<rparr>
           else info1)"

definition analyze_textarea :: "string list \<times> node \<Rightarrow> input_info" where
  "analyze_textarea p =
     (case p of (anc, tag) \<Rightarrow>
        foldl (other_attr_step ''textarea'')
          \<lparr>in_tag = ''textarea'',
           in_type = None,
           in_name = attr_get tag ''name'' '''',
           in_id = attr_get tag ''id'' '''',
           in_value = Some (get_or (node_string tag) ''''),
           in_options = None,
           in_attributes = [],
           in_suspicious = False,
           in_parent_form = parent_form anc,
           in_xss_vector = None\<rparr>
          (node_attrs tag))"

text \<open>The body of the loop over the options of a \<^verbatim>\<open>select\<close> tag.\<close>

definition option_step :: "input_info \<Rightarrow> string list \<times> node \<Rightarrow> input_info" where
  "option_step info p =
     (let option = snd p;
          option_info = \<lparr>op_value = attr_get option ''value'' '''',
                         op_text = get_or (node_string option) '''',
                         op_selected = (map_of (node_attrs option) ''selected'' \<noteq> None)\<rparr>;
          info1 = info\<lparr>in_options := Some (get_or (in_options info) [] @ [option_info])\<rparr>
      in if contains ''javascript:'' (lower (op_value option_info))
         then info1\<lparr>in_suspicious := True,
                in_xss_vector := Some (''JavaScript in option value: '' @ op_value option_info)\<rparr>
         else info1)"

definition analyze_select :: "string list \<times> node \<Rightarrow> input_info" where
  "analyze_select p =
     (case p of (anc, tag) \<Rightarrow>
        foldl (other_attr_step ''select'')
          (foldl option_step
             \<lparr>in_tag = ''select'',
              in_type = None,
              in_name = attr_get tag ''name'' '''',
              in_id = attr_get tag ''id'' '''',
              in_value = None,
              in_options = Some [],
              in_attributes = [],
              in_suspicious = False,
              in_parent_form = parent_form anc,
              in_xss_vector = None\<rparr>
             (find_all_in ''option'' p))
          (node_attrs tag))"

text \<open>\<^verbatim>\<open>_analyze_inputs\<close>\<close>

definition analyze_inputs :: "node list \<Rightarrow> input_info list" where
  "analyze_inputs soup =
     map analyze_input (find_all ''input'' soup)
     @ map analyze_textarea (find_all ''textarea'' soup)
     @ map analyze_select (find_all ''select'' soup)"

subsection \<open>Links\<close>

text \<open>The test of one decoded parameter value.\<close>

definition suspicious_value :: "string \<Rightarrow> bool" where
  "suspicious_value v =
     list_ex (\<lambda>p. contains p (lower v)) [''<script'', ''javascript:'', ''onerror='', ''onload='']"

text \<open>\<^verbatim>\<open>v[0] if v else ''\<close>\<close>

definition first_value :: "string list \<Rightarrow> string" where
  "first_value vs = (case vs of [] \<Rightarrow> [] | v # _ \<Rightarrow> v)"

definition param_step :: "link_info \<Rightarrow> string \<times> string \<Rightarrow> link_info" where
  "param_step info kv =
     (case kv of (param, v) \<Rightarrow>
        if suspicious_value v
        then info\<lparr>ln_suspicious := True,
               ln_xss_vector := Some (''Suspicious parameter: '' @ param @ ''='' @ take 100 v)\<rparr>
        else info)"

definition link_event_step :: "link_info \<Rightarrow> string \<times> string \<Rightarrow> link_info" where
  "link_event_step info a =
     (case a of (attr, raw) \<Rightarrow>
        if lower attr \<in> set event_attributes
        then info\<lparr>ln_suspicious := True,
               ln_xss_vector := Some (''Event handler in link: '' @ attr @ ''=''
                  @ str_value (attr_view ''a'' attr raw))\<rparr>
        else info)"

definition absolute_url :: "string \<Rightarrow> bool" where
  "absolute_url href =
     (startswith (lower href) ''http:'' \<or> startswith (lower href) ''https:''
      \<or> startswith (lower href) ''ftp:'')"

text \<open>
  The analysis of one anchor that has an \<^verbatim>\<open>href\<close>. \<open>query_params\<close> is the URL library:
  the items of \<^verbatim>\<open>parse_qs(urlparse(href).query)\<close>, or \<open>None\<close> when the library raises.
\<close>

definition analyze_link :: "(string \<Rightarrow> (string \<times> string list) list option) \<Rightarrow> string list \<times> node
    \<Rightarrow> link_info" where
  "analyze_link query_params p =
     (let tag = snd p;
          href = attr_get tag ''href'' '''';
          info0 = \<lparr>ln_href = href,
                   ln_text = take 50 (get_text_strip tag),
                   ln_suspicious = False,
                   ln_xss_vector = None,
                   ln_has_parameters = None,
                   ln_parameters = None\<rparr>;
          info1 =
            (if startswith (lower href) ''javascript:''
             then info0\<lparr>ln_suspicious := True,
                    ln_xss_vector := Some (''JavaScript URI: '' @ take 100 href)\<rparr>
             else if CHR ''?'' \<in> set href \<and> \<not> absolute_url href
             then info0\<lparr>ln_has_parameters := Some True\<rparr>
             else if CHR ''?'' \<in> set href
             then (case query_params href of
                     None \<Rightarrow> info0
                   | Some qs \<Rightarrow>
                       (let parameters = map (\<lambda>kv. (fst kv, first_value (snd kv))) qs
                        in foldl param_step
                             (info0\<lparr>ln_parameters := Some parameters, ln_has_parameters := Some True\<rparr>)
                             parameters))
             else info0)
      in foldl link_event_step info1 (node_attrs tag))"

text \<open>\<^verbatim>\<open>_analyze_links\<close>\<close>

definition analyze_links :: "(string \<Rightarrow> (string \<times> string list) list option) \<Rightarrow> node list
    \<Rightarrow> link_info list" where
  "analyze_links query_params soup =
     filter (\<lambda>link_info. ln_suspicious link_info \<or> ln_has_parameters link_info = Some True)
       (map (analyze_link query_params)
          (filter (\<lambda>p. map_of (node_attrs (snd p)) ''href'' \<noteq> None) (find_all ''a'' soup)))"

subsection \<open>The URL library\<close>

text \<open>
  A model of \<^verbatim>\<open>urllib.parse\<close> for the examples: \<^verbatim>\<open>urlparse(href).query\<close> followed by
  \<^verbatim>\<open>parse_qs\<close>, for URLs whose percent-escapes are below \<^verbatim>\<open>%80\<close> (an escaped byte is
  taken as the character with that code). The general statements about links hold for
  every library.
\<close>

definition scheme_char :: "char \<Rightarrow> bool" where
  "scheme_char c =
     (let n = (of_char c :: nat)
      in (97 \<le> n \<and> n \<le> 122) \<or> (65 \<le> n \<and> n \<le> 90) \<or> (48 \<le> n \<and> n \<le> 57)
         \<or> c \<in> set ''+-.'')"

definition drop_scheme :: "string \<Rightarrow> string" where
  "drop_scheme url =
     (let s = takeWhile (\<lambda>c. c \<noteq> CHR '':'') url
      in if s \<noteq> [] \<and> length s < length url \<and> list_all scheme_char s
            \<and> hd s \<notin> set ''0123456789+-.''
         then drop (length s + 1) url
         else url)"

definition url_query :: "string \<Rightarrow> string option" where
  "url_query href =
     (let url = filter (\<lambda>c. c \<notin> set [CHR 0x09, CHR 0x0A, CHR 0x0D]) href;
          rest = drop_scheme url;
          stop = (\<lambda>c. c \<in> set ''/?#'');
          netloc = (if take 2 rest = ''//'' then takeWhile (\<lambda>c. \<not> stop c) (drop 2 rest) else []);
          path = (if take 2 rest = ''//'' then dropWhile (\<lambda>c. \<not> stop c) (drop 2 rest) else rest);
          no_fragment = takeWhile (\<lambda>c. c \<noteq> CHR ''#'') path
      in if (CHR ''['' \<in> set netloc) \<noteq> (CHR '']'' \<in> set netloc) then None
         else Some (if CHR ''?'' \<in> set no_fragment
                    then tl (dropWhile (\<lambda>c. c \<noteq> CHR ''?'') no_fragment)
                    else []))"

text \<open>\<^verbatim>\<open>s.split(sep)\<close> for a one-character separator; \<open>w\<close> is the piece being read.\<close>

fun split_on :: "char \<Rightarrow> string \<Rightarrow> string \<Rightarrow> string list" where
  "split_on sep w [] = [w]"
| "split_on sep w (c # cs) = (if c = sep then w # split_on sep [] cs else split_on sep (w @ [c]) cs)"

definition hex_digit :: "char \<Rightarrow> nat option" where
  "hex_digit c =
     (let n = (of_char c :: nat)
      in if 48 \<le> n \<and> n \<le> 57 then Some (n - 48)
         else if 97 \<le> n \<and> n \<le> 102 then Some (n - 87)
         else if 65 \<le> n \<and> n \<le> 70 then Some (n - 55)
         else None)"

fun unquote :: "string \<Rightarrow> string" where
  "unquote (c # h # l # cs) =
     (if c = CHR ''%''
      then (case (hex_digit h, hex_digit l) of
              (Some a, Some b) \<Rightarrow> char_of (16 * a + b) # unquote cs
            | _ \<Rightarrow> c # unquote (h # l # cs))
      else c # unquote (h # l # cs))"
| "unquote cs = cs"

definition unquote_plus :: "string \<Rightarrow> string" where
  "unquote_plus s = unquote (map (\<lambda>c. if c = CHR ''+'' then CHR '' '' else c) s)"

text \<open>\<^verbatim>\<open>parse_qsl\<close>: a pair without \<^verbatim>\<open>=\<close> or with an empty value is dropped.\<close>

definition parse_pair :: "string \<Rightarrow> (string \<times> string) list" where
  "parse_pair name_value =
     (let name = takeWhile (\<lambda>c. c \<noteq> CHR ''='') name_value;
          rest = dropWhile (\<lambda>c. c \<noteq> CHR ''='') name_value
      in if rest = [] \<or> tl rest = [] then []
         else [(unquote_plus name, unquote_plus (tl rest))])"

fun group_values :: "(string \<times> string list) list \<Rightarrow> string \<times> string \<Rightarrow> (string \<times> string list) list" where
  "group_values [] (k, v) = [(k, [v])]"
| "group_values ((k', vs) # d) (k, v) =
     (if k = k' then (k', vs @ [v]) # d else (k', vs) # group_values d (k, v))"

definition parse_qs :: "string \<Rightarrow> (string \<times> string list) list" where
  "parse_qs qs =
     (if qs = [] then []
      else foldl group_values [] (concat (map parse_pair (split_on CHR ''&'' [] qs))))"

definition urllib_query :: "string \<Rightarrow> (string \<times> string list) list option" where
  "urllib_query href = map_option parse_qs (url_query href)"

section \<open>The properties in the words of the specification\<close>

text \<open>A signature matches a script when it is found somewhere in its content.\<close>

definition signature_matches :: "regex \<Rightarrow> string \<Rightarrow> bool" where
  "signature_matches p content = (re_search p content \<noteq> None)"

text \<open>The distinct signatures of a list that match.\<close>

definition matched :: "regex list \<Rightarrow> string \<Rightarrow> regex set" where
  "matched ps content = {p \<in> set ps. signature_matches p content}"

text \<open>
  The score before clamping: 25 for every high-risk signature, 10 for every medium-risk
  signature when no high-risk one matched, 20 for obfuscation.
\<close>

definition spec_score :: "string \<Rightarrow> int" where
  "spec_score content =
     25 * int (card (matched high_risk content))
     + 10 * (if matched high_risk content = {} then int (card (matched medium_risk content)) else 0)
     + (if (\<exists>p \<in> set obfuscation_patterns. signature_matches p content) then 20 else 0)"

text \<open>
  What an attribute of an \<^verbatim>\<open>input\<close> element is reported as when it offends: by a
  \<^verbatim>\<open>javascript:\<close> in its string value, or else by an event-attribute name.
\<close>

definition input_offence :: "string \<times> string \<Rightarrow> string option" where
  "input_offence a =
     (if \<not> cdata_list_attribute ''input'' (fst a) \<and> contains ''javascript:'' (lower (snd a))
      then Some (''JavaScript in attribute: '' @ fst a @ ''='' @ snd a)
      else if fst a \<in> set event_attributes
      then Some (''Event handler: '' @ fst a @ ''='' @ snd a)
      else None)"

text \<open>
  What an attribute of a \<^verbatim>\<open>textarea\<close> or \<^verbatim>\<open>select\<close> element is reported as when its
  name is an event attribute, and an option of a \<^verbatim>\<open>select\<close> when its value holds
  \<^verbatim>\<open>javascript:\<close>.
\<close>

definition event_offence :: "string \<times> string \<Rightarrow> string option" where
  "event_offence a =
     (if fst a \<in> set event_attributes
      then Some (''Event handler: '' @ fst a @ ''='' @ snd a)
      else None)"

definition option_offence :: "string list \<times> node \<Rightarrow> string option" where
  "option_offence p =
     (if contains ''javascript:'' (lower (attr_get (snd p) ''value'' ''''))
      then Some (''JavaScript in option value: '' @ attr_get (snd p) ''value'' '''')
      else None)"

text \<open>The last element of a list, if it has one.\<close>

definition last_option :: "'a list \<Rightarrow> 'a option" where
  "last_option xs = (if xs = [] then None else Some (last xs))"

text \<open>Whether the decoded query of an href has a parameter whose first value is suspicious.\<close>

definition query_suspicious :: "(string \<Rightarrow> (string \<times> string list) list option) \<Rightarrow> string \<Rightarrow> bool" where
  "query_suspicious query_params href =
     (case query_params href of
        None \<Rightarrow> False
      | Some qs \<Rightarrow> list_ex (\<lambda>kv. suspicious_value (first_value (snd kv))) qs)"

text \<open>The path names an existing file that decodes as an image.\<close>

definition readable_image :: "'img vision \<Rightarrow> string \<Rightarrow> bool" where
  "readable_image env path =
     (path_exists env path
      \<and> (case imread env path of Inl e \<Rightarrow> False | Inr None \<Rightarrow> False | Inr (Some img) \<Rightarrow> True))"

text \<open>The severities the detector writes.\<close>

definition severity_emitted :: "vulnerability \<Rightarrow> bool" where
  "severity_emitted v = (v_severity v = Alto \<or> v_severity v = Medio)"

section \<open>Example inputs\<close>

text \<open>A machine on which no screenshot exists.\<close>

definition no_screenshot :: "unit vision" where
  "no_screenshot =
     \<lparr>path_exists = (\<lambda>p. False), imread = (\<lambda>p. Inr None), image_shape = (\<lambda>i. (0, 0)),
      detect_input_fields = (\<lambda>i. Inr [])\<rparr>"

definition empty_html :: html_analysis where
  "empty_html =
     \<lparr>ha_inputs = [], ha_event_handlers = [], ha_inline_scripts = [],
      ha_suspicious_patterns = [], ha_links = [], ha_base_url = None\<rparr>"

definition inline :: "string \<Rightarrow> script_ref" where
  "inline content = \<lparr>sc_type = ''inline'', sc_src = None, sc_content = Some content\<rparr>"

text \<open>\<^verbatim>\<open><div onclick="x.innerHTML=1">\<close> as the parser reports it.\<close>

definition div_onclick :: handler_info where
  "div_onclick =
     \<lparr>eh_tag_name = ''div'', eh_id = '''', eh_class = '''',
      eh_handlers = [(''onclick'', ''x.innerHTML=1'')], eh_content_preview = ''''\<rparr>"

text \<open>\<^verbatim>\<open><input type="text" onload="eval(x)">\<close> at the top of a document.\<close>

definition input_onload :: "string list \<times> node" where
  "input_onload =
     ([''[document]''], Element ''input'' [(''type'', ''text''), (''onload'', ''eval(x)'')] [])"

section \<open>The script risk score\<close>

lemma finditer_from_iff:
  "k \<le> length s \<Longrightarrow> finditer_from p k s \<noteq> [] \<longleftrightarrow> re_search p (drop k s) \<noteq> None"
proof (induction s arbitrary: k)
  case Nil
  then show ?case by (simp split: option.splits)
next
  case (Cons x xs)
  show ?case
  proof (cases k)
    case 0
    then show ?thesis using Cons.IH [of 0] by (simp split: option.splits)
  next
    case (Suc j)
    then show ?thesis using Cons.IH [of j] Cons.prems by simp
  qed
qed

lemma finditer_iff: "finditer p s \<noteq> [] \<longleftrightarrow> signature_matches p s"
  using finditer_from_iff [of 0 s p] by (simp add: finditer_def signature_matches_def)

lemma scan_fst: "fst (scan_signatures r c ps) = [] \<longleftrightarrow> filter (\<lambda>p. signature_matches p c) ps = []"
proof (induction ps)
  case Nil
  then show ?case by simp
next
  case (Cons p ps)
  then show ?case
    using finditer_iff [of p c]
    by (cases "finditer p c") (simp_all add: case_prod_unfold Let_def)
qed

lemma scan_risk: "f \<in> set (snd (scan_signatures r c ps)) \<Longrightarrow> df_risk f = r"
  by (induction ps) (auto simp: case_prod_unfold Let_def split: list.splits)

lemma scan_length: "length (snd (scan_signatures r c ps)) = length (filter (\<lambda>p. signature_matches p c) ps)"
proof (induction ps)
  case Nil
  then show ?case by simp
next
  case (Cons p ps)
  then show ?case
    using finditer_iff [of p c]
    by (cases "finditer p c") (simp_all add: case_prod_unfold Let_def)
qed

lemma scan_count:
  "length (filter (\<lambda>f. df_risk f = r') (snd (scan_signatures r c ps))) =
     (if r = r' then length (filter (\<lambda>p. signature_matches p c) ps) else 0)"
proof -
  have "filter (\<lambda>f. df_risk f = r') (snd (scan_signatures r c ps)) =
        (if r = r' then snd (scan_signatures r c ps) else [])"
    using scan_risk [of _ r c ps] by (auto simp: filter_empty_conv filter_id_conv)
  then show ?thesis by (simp add: scan_length)
qed

lemma distinct_high_risk: "distinct high_risk"
  by (simp add: high_risk_def lits_def)

lemma distinct_medium_risk: "distinct medium_risk"
  by (simp add: medium_risk_def lits_def)

lemma length_filter_card:
  "distinct ps \<Longrightarrow> length (filter (\<lambda>p. signature_matches p c) ps) = card (matched ps c)"
  by (simp add: distinct_length_filter matched_def Int_def conj_commute)

lemma filter_nil_matched: "filter (\<lambda>p. signature_matches p c) ps = [] \<longleftrightarrow> matched ps c = {}"
  by (auto simp: matched_def filter_empty_conv)

lemma detect_obfuscation_iff:
  "detect_obfuscation c \<longleftrightarrow> (\<exists>p \<in> set obfuscation_patterns. signature_matches p c)"
  by (simp add: detect_obfuscation_def list_ex_iff signature_matches_def)

lemma spec_score_alt:
  "spec_score c =
     25 * int (card (matched high_risk c))
     + 10 * (if matched high_risk c = {} then int (card (matched medium_risk c)) else 0)
     + (if detect_obfuscation c then 20 else 0)"
  by (simp add: spec_score_def detect_obfuscation_iff)

lemma risk_score_spec: "risk_score (analyze_script_simplified c i) = min 100 (spec_score c)"
proof -
  obtain ms hs where sc: "scan_signatures ''high'' c high_risk = (ms, hs)"
    by (cases "scan_signatures ''high'' c high_risk")
  have ms: "ms = [] \<longleftrightarrow> matched high_risk c = {}"
    using scan_fst [of "''high''" c high_risk] sc by (simp add: filter_nil_matched)
  have hh: "length (filter (\<lambda>f. df_risk f = ''high'') hs) = card (matched high_risk c)"
    using scan_count [of "''high''" "''high''" c high_risk] sc
    by (simp add: length_filter_card distinct_high_risk)
  have hm: "length (filter (\<lambda>f. df_risk f = ''medium'') hs) = 0"
    using scan_count [of "''medium''" "''high''" c high_risk] sc by simp
  have mh: "length (filter (\<lambda>f. df_risk f = ''high'') (snd (scan_signatures ''medium'' c medium_risk))) = 0"
    using scan_count [of "''high''" "''medium''" c medium_risk] by simp
  have mm: "length (filter (\<lambda>f. df_risk f = ''medium'') (snd (scan_signatures ''medium'' c medium_risk)))
      = card (matched medium_risk c)"
    using scan_count [of "''medium''" "''medium''" c medium_risk]
    by (simp add: length_filter_card distinct_medium_risk)
  show ?thesis
    using ms hh hm mh mm
    by (simp add: analyze_script_simplified_def sc spec_score_alt Let_def mult.commute del: length_0_conv)
qed




lemma risk_level_spec: "risk_level (analyze_script_simplified c i) = level_of (spec_score c)"
proof -
  obtain ms hs where sc: "scan_signatures ''high'' c high_risk = (ms, hs)"
    by (cases "scan_signatures ''high'' c high_risk")
  have ms: "ms = [] \<longleftrightarrow> matched high_risk c = {}"
    using scan_fst [of "''high''" c high_risk] sc by (simp add: filter_nil_matched)
  have hh: "length (filter (\<lambda>f. df_risk f = ''high'') hs) = card (matched high_risk c)"
    using scan_count [of "''high''" "''high''" c high_risk] sc
    by (simp add: length_filter_card distinct_high_risk)
  have hm: "length (filter (\<lambda>f. df_risk f = ''medium'') hs) = 0"
    using scan_count [of "''medium''" "''high''" c high_risk] sc by simp
  have mh: "length (filter (\<lambda>f. df_risk f = ''high'') (snd (scan_signatures ''medium'' c medium_risk))) = 0"
    using scan_count [of "''high''" "''medium''" c medium_risk] by simp
  have mm: "length (filter (\<lambda>f. df_risk f = ''medium'') (snd (scan_signatures ''medium'' c medium_risk)))
      = card (matched medium_risk c)"
    using scan_count [of "''medium''" "''medium''" c medium_risk]
    by (simp add: length_filter_card distinct_medium_risk)
  show ?thesis
    using ms hh hm mh mm
    by (simp add: analyze_script_simplified_def sc spec_score_alt Let_def mult.commute del: length_0_conv)
qed

lemma level_of_min: "level_of (min 100 s) = level_of s"
  by (simp add: level_of_def min_def)

lemma match_here_extend:
  "match_here p g s \<noteq> None \<Longrightarrow> match_here p g (s @ t) \<noteq> None"
proof (induction p g s rule: match_here.induct)
  case (1 g s)
  then show ?case by simp
next
  case (2 c r g)
  then show ?case by simp
next
  case (3 c r g x xs)
  then show ?case by (simp split: if_splits)
next
  case (4 n c r g)
  then show ?case by simp
next
  case (5 n c r g x xs)
  show ?case
  proof (cases "cls_match c x")
    case True
    then have "match_here r (g(n := Some x)) xs \<noteq> None" using 5(2) by auto
    then have "match_here r (g(n := Some x)) (xs @ t) \<noteq> None" using 5(1) True by blast
    then show ?thesis using True by auto
  next
    case False
    then show ?thesis using 5(2) by simp
  qed
next
  case (6 n r g)
  then show ?case by simp
next
  case (7 n r g x xs)
  then show ?case by (simp split: if_splits)
next
  case (8 c r g)
  then show ?case by simp
next
  case (9 c r g x xs)
  then show ?case by (simp split: if_splits)
next
  case (10 c r g)
  show ?case
  proof (cases t)
    case Nil
    then show ?thesis using 10 by simp
  next
    case (Cons y ys)
    have "match_here r g (y # ys) \<noteq> None" using 10 Cons by simp
    then show ?thesis using Cons by (simp split: option.splits)
  qed
next
  case (11 c r g x xs)
  show ?case
  proof (cases "cls_match c x")
    case False
    then show ?thesis using 11 by simp
  next
    case True
    show ?thesis
    proof (cases "match_here (Star c # r) g xs")
      case (Some m)
      then have "match_here (Star c # r) g (xs @ t) \<noteq> None" using 11(1) True by simp
      then show ?thesis using True by (auto split: option.splits)
    next
      case None
      then have "match_here r g (x # xs) \<noteq> None" using 11(4) True by simp
      then have "match_here r g ((x # xs) @ t) \<noteq> None" using 11(2) True None by simp
      then show ?thesis using True by (simp split: option.splits)
    qed
  qed
qed

lemma re_search_append: "re_search p s \<noteq> None \<Longrightarrow> re_search p (s @ t) \<noteq> None"
proof (induction s)
  case Nil
  have "match_here p (\<lambda>_. None) ([] @ t) \<noteq> None"
    using Nil match_here_extend [of p "\<lambda>_. None" "[]" t] by simp
  then show ?case by (cases t) (auto split: option.splits)
next
  case (Cons x xs)
  show ?case
  proof (cases "match_here p (\<lambda>_. None) (x # xs)")
    case None
    then show ?thesis using Cons by (simp split: option.splits)
  next
    case (Some m)
    then have "match_here p (\<lambda>_. None) ((x # xs) @ t) \<noteq> None"
      using match_here_extend [of p "\<lambda>_. None" "x # xs" t] by simp
    then show ?thesis by (auto split: option.splits)
  qed
qed

lemma re_search_prepend: "re_search p s \<noteq> None \<Longrightarrow> re_search p (u @ s) \<noteq> None"
proof (induction u)
  case Nil
  then show ?case by simp
next
  case (Cons x xs)
  then show ?case by (simp split: option.splits)
qed

lemma signature_matches_embed:
  assumes "signature_matches p c"
  shows "signature_matches p (pre @ c @ post)"
proof -
  have "re_search p c \<noteq> None" using assms by (simp add: signature_matches_def)
  then have "re_search p (c @ post) \<noteq> None" by (rule re_search_append)
  then have "re_search p (pre @ (c @ post)) \<noteq> None" by (rule re_search_prepend)
  then show ?thesis by (simp add: signature_matches_def)
qed

lemma matched_mono: "matched ps c \<subseteq> matched ps (pre @ c @ post)"
proof
  fix p
  assume "p \<in> matched ps c"
  then have "p \<in> set ps" and "signature_matches p c" by (simp_all add: matched_def)
  then show "p \<in> matched ps (pre @ c @ post)"
    using signature_matches_embed [of p c pre post] by (simp add: matched_def)
qed

lemma card_matched_mono: "card (matched ps c) \<le> card (matched ps (pre @ c @ post))"
proof (rule card_mono)
  show "finite (matched ps (pre @ c @ post))" by (simp add: matched_def)
  show "matched ps c \<subseteq> matched ps (pre @ c @ post)" by (rule matched_mono)
qed

lemma detect_obfuscation_mono:
  assumes "detect_obfuscation c"
  shows "detect_obfuscation (pre @ c @ post)"
proof -
  obtain p where "p \<in> set obfuscation_patterns" and "signature_matches p c"
    using assms unfolding detect_obfuscation_iff by blast
  then have "p \<in> set obfuscation_patterns \<and> signature_matches p (pre @ c @ post)"
    using signature_matches_embed [of p c pre post] by simp
  then show ?thesis unfolding detect_obfuscation_iff by blast
qed

lemma card_matched_pos: "matched ps c \<noteq> {} \<Longrightarrow> 0 < card (matched ps c)"
  by (simp add: matched_def card_gt_0_iff)

lemma spec_score_nonneg: "0 \<le> spec_score c"
  by (simp add: spec_score_alt)

lemma spec_score_mono:
  assumes "matched high_risk c \<noteq> {} \<or> card (matched medium_risk c) \<le> 2"
  shows "spec_score c \<le> spec_score (pre @ c @ post)"
proof -
  let ?c' = "pre @ c @ post"
  have h: "card (matched high_risk c) \<le> card (matched high_risk ?c')"
    by (rule card_matched_mono)
  have m: "card (matched medium_risk c) \<le> card (matched medium_risk ?c')"
    by (rule card_matched_mono)
  have o: "detect_obfuscation c \<Longrightarrow> detect_obfuscation ?c'"
    by (rule detect_obfuscation_mono)
  show ?thesis
  proof (cases "matched high_risk c = {}")
    case False
    then have "matched high_risk ?c' \<noteq> {}" using matched_mono [of high_risk c pre post] by blast
    then show ?thesis using False h o by (auto simp: spec_score_alt)
  next
    case True
    then have m2: "card (matched medium_risk c) \<le> 2" using assms by simp
    show ?thesis
    proof (cases "matched high_risk ?c' = {}")
      case True
      then show ?thesis using \<open>matched high_risk c = {}\<close> m o by (auto simp: spec_score_alt)
    next
      case False
      then have "0 < card (matched high_risk ?c')" by (rule card_matched_pos)
      then show ?thesis using False \<open>matched high_risk c = {}\<close> m2 o by (auto simp: spec_score_alt)
    qed
  qed
qed


text \<open>
  C2. For every script content, the risk score is the clamped sum of 25 for each distinct
  high-risk signature matched, 10 for each distinct medium-risk signature matched (counted
  only when no high-risk signature matched) and 20 when an obfuscation signature matched;
  the risk level is high from 70, medium from 40, low from 10 and safe below; and the
  content \<^verbatim>\<open>eval(userInput)\<close> scores 25, level low.
\<close>

theorem C2_risk_score_and_level:
  "risk_score (analyze_script_simplified c i) = min 100 (spec_score c)
   \<and> risk_level (analyze_script_simplified c i) =
       (let s = risk_score (analyze_script_simplified c i)
        in if 70 \<le> s then ''high'' else if 40 \<le> s then ''medium''
           else if 10 \<le> s then ''low'' else ''safe'')
   \<and> risk_score (analyze_script_simplified ''eval(userInput)'' 0) = 25
   \<and> risk_level (analyze_script_simplified ''eval(userInput)'' 0) = ''low''"
proof -
  have s: "risk_score (analyze_script_simplified c i) = min 100 (spec_score c)"
    by (rule risk_score_spec)
  have "risk_level (analyze_script_simplified c i) = level_of (min 100 (spec_score c))"
    by (simp add: risk_level_spec level_of_min)
  then have l: "risk_level (analyze_script_simplified c i) =
       (let s = risk_score (analyze_script_simplified c i)
        in if 70 \<le> s then ''high'' else if 40 \<le> s then ''medium''
           else if 10 \<le> s then ''low'' else ''safe'')"
    unfolding s by (simp add: level_of_def Let_def)
  have e1: "risk_score (analyze_script_simplified ''eval(userInput)'' 0) = 25"
    by code_simp
  have e2: "risk_level (analyze_script_simplified ''eval(userInput)'' 0) = ''low''"
    by code_simp
  show ?thesis using s l e1 e2 by blast
qed

text \<open>
  C6, as the claim states it, fails: a script that matches three medium-risk signatures
  and no high-risk one scores 30; extended by \<^verbatim>\<open>;eval(d)\<close> it matches one high-risk
  signature, the medium-risk signatures are no longer counted, and it scores 25.
\<close>

theorem C6_counterexample:
  "\<not> list_ex (\<lambda>p. signature_matches p ''fetch(a);b.src=c;new XMLHttpRequest'') high_risk
   \<and> list_ex (\<lambda>p. signature_matches p (''fetch(a);b.src=c;new XMLHttpRequest'' @ '';eval(d)'')) high_risk
   \<and> risk_score (analyze_script_simplified ''fetch(a);b.src=c;new XMLHttpRequest'' 0) = 30
   \<and> risk_score (analyze_script_simplified (''fetch(a);b.src=c;new XMLHttpRequest'' @ '';eval(d)'') 0) = 25"
  by code_simp

text \<open>
  C6, amended. The risk score always lies in [0, 100]; and embedding a script content in
  a longer one (so that further signatures may match) never decreases the score, provided
  the original content already matches a high-risk signature or matches at most two
  medium-risk signatures.
\<close>

theorem C6_score_bounded_and_monotone:
  "0 \<le> risk_score (analyze_script_simplified c i)
   \<and> risk_score (analyze_script_simplified c i) \<le> 100
   \<and> ((\<exists>p \<in> set high_risk. signature_matches p c) \<or> card (matched medium_risk c) \<le> 2
        \<longrightarrow> risk_score (analyze_script_simplified c i)
            \<le> risk_score (analyze_script_simplified (pre @ c @ post) j))"
proof -
  have b: "0 \<le> risk_score (analyze_script_simplified c i)
      \<and> risk_score (analyze_script_simplified c i) \<le> 100"
    using spec_score_nonneg [of c] by (simp add: risk_score_spec)
  have m: "risk_score (analyze_script_simplified c i)
            \<le> risk_score (analyze_script_simplified (pre @ c @ post) j)"
    if "(\<exists>p \<in> set high_risk. signature_matches p c) \<or> card (matched medium_risk c) \<le> 2"
  proof -
    have "matched high_risk c \<noteq> {} \<or> card (matched medium_risk c) \<le> 2"
      using that by (auto simp: matched_def)
    then have "spec_score c \<le> spec_score (pre @ c @ post)" by (rule spec_score_mono)
    then show ?thesis by (simp add: risk_score_spec)
  qed
  show ?thesis using b m by blast
qed

theorem C6_score_bounded_and_monotone_witness:
  "(\<exists>p \<in> set high_risk. signature_matches p ''eval(a)'')
   \<and> 0 \<le> risk_score (analyze_script_simplified ''eval(a)'' 0)
   \<and> risk_score (analyze_script_simplified ''eval(a)'' 0) \<le> 100
   \<and> risk_score (analyze_script_simplified ''eval(a)'' 0)
       \<le> risk_score (analyze_script_simplified (''x='' @ ''eval(a)'' @ '';document.write(b)'') 1)"
proof -
  have h: "\<exists>p \<in> set high_risk. signature_matches p ''eval(a)''"
    by code_simp
  show ?thesis
    using h C6_score_bounded_and_monotone [of "''eval(a)''" 0 "''x=''" "'';document.write(b)''" 1]
    by blast
qed

section \<open>Deduplication\<close>

lemma dedup_from_absorb:
  "S' \<subseteq> S \<Longrightarrow> dedup_from S' (dedup_from S vs) = dedup_from S vs"
proof (induction vs arbitrary: S S')
  case Nil
  then show ?case by simp
next
  case (Cons v vs)
  show ?case
  proof (cases "dedup_key v \<in> S")
    case True
    then show ?thesis using Cons by simp
  next
    case False
    then have "dedup_key v \<notin> S'" using Cons.prems by blast
    moreover have "insert (dedup_key v) S' \<subseteq> insert (dedup_key v) S"
      using Cons.prems by blast
    ultimately show ?thesis using False Cons.IH by simp
  qed
qed

lemma dedup_from_subseq: "subseq (dedup_from S vs) vs"
  by (induction vs arbitrary: S) auto

text \<open>
  C7. Deduplication by the key (url, type, description) is idempotent, and the records it
  keeps stand in the order they had in the input: the result is a subsequence of it.
\<close>

theorem C7_dedup_idempotent_and_ordered:
  "deduplicate_vulnerabilities (deduplicate_vulnerabilities L) = deduplicate_vulnerabilities L
   \<and> subseq (deduplicate_vulnerabilities L) L"
  by (simp add: deduplicate_vulnerabilities_def dedup_from_absorb dedup_from_subseq)

section \<open>The stand-alone report\<close>

text \<open>
  C9. Called with an empty vulnerability list, \<^verbatim>\<open>generate_report\<close> returns the null path
  and leaves the file system as it was: no directory is created and no file is written.
\<close>

theorem C9_empty_report:
  "generate_report now [] output_path fs = (None, fs)"
  by (simp add: generate_report_def)

section \<open>The correlation passes\<close>

text \<open>
  C1, at a script with three high-risk signatures (score 75, level high): the loop over its
  dangerous functions reads the key \<^verbatim>\<open>context\<close>, which the analyzer never writes, the
  correlation ends with a KeyError and the page analysis returns no record at all.
\<close>

theorem C1_high_risk_script_yields_no_record:
  "map risk_level (script_results (ScriptAnalyzer_analyze
       [inline ''eval(a);document.write(b);x.innerHTML=c''])) = [''high'']
   \<and> correlate_analyses ''http://site/'' None empty_html
        (ScriptAnalyzer_analyze [inline ''eval(a);document.write(b);x.innerHTML=c'']) None
       = Inl (KeyError ''context'')
   \<and> XSSDetector_analyze no_screenshot
        \<lparr>pd_url = ''http://site/'', pd_html = empty_html,
         pd_scripts = [inline ''eval(a);document.write(b);x.innerHTML=c''],
         pd_screenshot_path = None\<rparr> = []"
  by code_simp

subsection \<open>Event handlers\<close>

text \<open>
  A lower-cased string has no capital H, so the entry \<^verbatim>\<open>innerHTML\<close> of the dangerous
  substrings is never found in the lower-cased handler code: a handler is critical only
  through the other four entries.
\<close>

lemma lower_char_not_H: "lower_char c \<noteq> CHR ''H''"
proof
  assume a: "lower_char c = CHR ''H''"
  have h: "(of_char (lower_char c) :: nat) = 72" unfolding a by simp
  let ?n = "of_char c :: nat"
  show False
  proof (cases "(65 \<le> ?n \<and> ?n \<le> 90) \<or> (192 \<le> ?n \<and> ?n \<le> 222 \<and> ?n \<noteq> 215)")
    case True
    then have "lower_char c = char_of (?n + 32)" by (simp add: lower_char_def Let_def)
    then have "(of_char (lower_char c) :: nat) = (?n + 32) mod 256" by simp
    then show False using h True by auto
  next
    case False
    then have "lower_char c = c" by (auto simp: lower_char_def Let_def)
    then show False using h False by simp
  qed
qed

lemma contains_subset: "contains needle hay \<Longrightarrow> set needle \<subseteq> set hay"
proof (induction hay)
  case Nil
  then show ?case by simp
next
  case (Cons x xs)
  show ?case
  proof (cases "startswith (x # xs) needle")
    case True
    then have "set needle = set (take (length needle) (x # xs))" by (simp add: startswith_def)
    then show ?thesis using set_take_subset by fastforce
  next
    case False
    then show ?thesis using Cons by auto
  qed
qed

lemma innerHTML_not_in_lower: "\<not> contains ''innerHTML'' (lower code)"
proof
  assume "contains ''innerHTML'' (lower code)"
  then have "set ''innerHTML'' \<subseteq> set (lower code)" by (rule contains_subset)
  then have "CHR ''H'' \<in> lower_char ` set code" by (auto simp: lower_def)
  then obtain x where "lower_char x = CHR ''H''" by auto
  then show False using lower_char_not_H [of x] by blast
qed

lemma critical_without_innerHTML:
  "critical (event, code) =
     (lower event \<in> set high_risk_events
      \<and> list_ex (\<lambda>danger. contains danger (lower code))
            [''eval('', ''function('', ''document.write'', ''location''])"
  using innerHTML_not_in_lower [of code] by (simp add: critical_def handler_dangers_def)

text \<open>
  C3, at \<^verbatim>\<open><div onclick="x.innerHTML=1">\<close>: the handler of a high-risk event contains
  \<^verbatim>\<open>innerHTML\<close>, but the test looks for \<^verbatim>\<open>innerHTML\<close> in the lower-cased code, where it
  cannot occur, and the record's severity is the medium one.
\<close>

theorem C3_innerHTML_handler_is_medium:
  "map v_severity
     (find_event_vulnerabilities ''http://site/'' (empty_html\<lparr>ha_event_handlers := [div_onclick]\<rparr>)
        (ScriptAnalyzer_analyze []) None) = [Medio]
   \<and> map v_subtype
     (find_event_vulnerabilities ''http://site/'' (empty_html\<lparr>ha_event_handlers := [div_onclick]\<rparr>)
        (ScriptAnalyzer_analyze []) None) = [''suspicious_handler'']"
  by code_simp

text \<open>
  C8. When the screenshot path does not name an existing file that decodes as an image
  (the file is missing, or reading it fails or raises), the visual analysis returns
  \<open>None\<close>, and the input pass run
  with that result reports every suspicious input of the HTML analysis, in order, each as
  an \<^verbatim>\<open>input_xss\<close> record of medium severity.
\<close>

theorem C8_missing_screenshot_falls_back:
  assumes "\<not> readable_image env path"
  shows "VisualAnalyzer_analyze env path = None
   \<and> map v_details (find_input_vulnerabilities url (VisualAnalyzer_analyze env path) html sa shot)
       = map (\<lambda>i. InputHtml (in_tag i) (in_id i) (in_name i) i) (filter in_suspicious (ha_inputs html))
   \<and> list_all (\<lambda>v. v_type v = ''input_xss'' \<and> v_severity v = Medio)
        (find_input_vulnerabilities url (VisualAnalyzer_analyze env path) html sa shot)"
proof -
  have n: "VisualAnalyzer_analyze env path = None"
    using assms
    by (auto simp: VisualAnalyzer_analyze_def readable_image_def split: sum.splits option.splits)
  show ?thesis
    unfolding n
    by (simp add: find_input_vulnerabilities_def html_only_input_def list_all_iff comp_def)
qed

theorem C8_missing_screenshot_falls_back_witness:
  "\<not> readable_image no_screenshot ''shots/page.png''
   \<and> VisualAnalyzer_analyze no_screenshot ''shots/page.png'' = None
   \<and> map v_details (find_input_vulnerabilities ''http://site/''
          (VisualAnalyzer_analyze no_screenshot ''shots/page.png'')
          (empty_html\<lparr>ha_inputs := [analyze_input input_onload]\<rparr>)
          (ScriptAnalyzer_analyze []) (Some ''shots/page.png''))
       = map (\<lambda>i. InputHtml (in_tag i) (in_id i) (in_name i) i)
           (filter in_suspicious (ha_inputs (empty_html\<lparr>ha_inputs := [analyze_input input_onload]\<rparr>)))
   \<and> list_all (\<lambda>v. v_type v = ''input_xss'' \<and> v_severity v = Medio)
        (find_input_vulnerabilities ''http://site/''
          (VisualAnalyzer_analyze no_screenshot ''shots/page.png'')
          (empty_html\<lparr>ha_inputs := [analyze_input input_onload]\<rparr>)
          (ScriptAnalyzer_analyze []) (Some ''shots/page.png''))
   \<and> length (find_input_vulnerabilities ''http://site/''
          (VisualAnalyzer_analyze no_screenshot ''shots/page.png'')
          (empty_html\<lparr>ha_inputs := [analyze_input input_onload]\<rparr>)
          (ScriptAnalyzer_analyze []) (Some ''shots/page.png'')) = 1"
proof -
  have h: "\<not> readable_image no_screenshot ''shots/page.png''"
    by (simp add: no_screenshot_def readable_image_def)
  have l: "length (find_input_vulnerabilities ''http://site/''
          (VisualAnalyzer_analyze no_screenshot ''shots/page.png'')
          (empty_html\<lparr>ha_inputs := [analyze_input input_onload]\<rparr>)
          (ScriptAnalyzer_analyze []) (Some ''shots/page.png'')) = 1"
    by code_simp
  show ?thesis
    using h l C8_missing_screenshot_falls_back [OF h, of "''http://site/''"
        "empty_html\<lparr>ha_inputs := [analyze_input input_onload]\<rparr>"
        "ScriptAnalyzer_analyze []" "Some ''shots/page.png''"]
    by blast
qed

subsection \<open>Severities\<close>

lemma input_pass_severity:
  "v \<in> set (find_input_vulnerabilities url visual html sa shot) \<Longrightarrow> severity_emitted v"
  by (cases visual)
     (auto simp: find_input_vulnerabilities_def html_only_input_def visual_input_vulnerability_def
        severity_emitted_def Let_def case_prod_unfold split: if_splits)

lemma event_pass_severity:
  "v \<in> set (find_event_vulnerabilities url html sa shot) \<Longrightarrow> severity_emitted v"
  by (auto simp: find_event_vulnerabilities_def event_vulnerability_def severity_emitted_def Let_def)

lemma script_vulnerability_severity:
  "script_vulnerability url shot script = Inr vs \<Longrightarrow> v \<in> set vs \<Longrightarrow> severity_emitted v"
  by (auto simp: script_vulnerability_def severity_emitted_def Let_def
      split: if_splits sum.splits)

lemma script_vulnerabilities_severity:
  "script_vulnerabilities url shot scripts = Inr vs \<Longrightarrow> v \<in> set vs \<Longrightarrow> severity_emitted v"
proof (induction scripts arbitrary: vs)
  case Nil
  then show ?case by simp
next
  case (Cons s scripts)
  then obtain a b where a: "script_vulnerability url shot s = Inr a"
    and b: "script_vulnerabilities url shot scripts = Inr b" and vs: "vs = a @ b"
    by (auto split: sum.splits)
  then have "v \<in> set a \<or> v \<in> set b" using Cons.prems by simp
  then show ?case using a b Cons.IH script_vulnerability_severity by blast
qed

lemma script_pass_severity:
  "find_script_vulnerabilities url html sa shot = Inr vs \<Longrightarrow> v \<in> set vs \<Longrightarrow> severity_emitted v"
proof -
  assume r: "find_script_vulnerabilities url html sa shot = Inr vs" and v: "v \<in> set vs"
  obtain a where a: "script_vulnerabilities url shot (script_results sa) = Inr a"
    and vs: "vs = a @ map (inline_script_vulnerability url shot) (filter is_suspicious (ha_inline_scripts html))"
    using r by (auto simp: find_script_vulnerabilities_def split: sum.splits)
  show ?thesis
  proof (cases "v \<in> set a")
    case True
    then show ?thesis using a script_vulnerabilities_severity by blast
  next
    case False
    then have "v \<in> inline_script_vulnerability url shot ` set (filter is_suspicious (ha_inline_scripts html))"
      using v vs by auto
    then show ?thesis
      by (auto simp: inline_script_vulnerability_def severity_emitted_def Let_def)
  qed
qed

lemma url_pass_severity:
  "v \<in> set (find_url_vulnerabilities url html sa shot) \<Longrightarrow> severity_emitted v"
  by (auto simp: find_url_vulnerabilities_def link_vulnerability_def pattern_vulnerability_def
      severity_emitted_def)

lemma severity_emitted_not_low:
  "severity_emitted v \<Longrightarrow> v_severity v \<noteq> ''Baixo'' \<and> v_severity v \<noteq> ''Informativo''"
  by (auto simp: severity_emitted_def Alto_def Medio_def)

text \<open>
  C10. Every record the correlation returns, from any of the four passes, has the severity
  \<^verbatim>\<open>Alto\<close> or the medium one; \<^verbatim>\<open>Baixo\<close> and \<^verbatim>\<open>Informativo\<close> are never emitted.
\<close>

theorem C10_only_high_and_medium_severities:
  assumes "correlate_analyses url visual html sa shot = Inr vs" and "v \<in> set vs"
  shows "(v_severity v = Alto \<or> v_severity v = Medio)
    \<and> v_severity v \<noteq> ''Baixo'' \<and> v_severity v \<noteq> ''Informativo''"
proof -
  obtain s where s: "find_script_vulnerabilities url html sa shot = Inr s"
    and vs: "vs = find_input_vulnerabilities url visual html sa shot
        @ find_event_vulnerabilities url html sa shot @ s
        @ find_url_vulnerabilities url html sa shot"
    using assms(1) by (auto simp: correlate_analyses_def Let_def split: sum.splits)
  have "v \<in> set (find_input_vulnerabilities url visual html sa shot)
      \<or> v \<in> set (find_event_vulnerabilities url html sa shot)
      \<or> v \<in> set s
      \<or> v \<in> set (find_url_vulnerabilities url html sa shot)"
    using assms(2) vs by auto
  then have "severity_emitted v"
    using input_pass_severity event_pass_severity script_pass_severity [OF s] url_pass_severity
    by blast
  then show ?thesis
    using severity_emitted_not_low by (simp add: severity_emitted_def)
qed

theorem C10_only_high_and_medium_severities_witness:
  "correlate_analyses ''http://site/'' None (empty_html\<lparr>ha_event_handlers := [div_onclick]\<rparr>)
       (ScriptAnalyzer_analyze []) None
     = Inr [event_vulnerability ''http://site/'' None div_onclick]
   \<and> (v_severity (event_vulnerability ''http://site/'' None div_onclick) = Alto
       \<or> v_severity (event_vulnerability ''http://site/'' None div_onclick) = Medio)
   \<and> v_severity (event_vulnerability ''http://site/'' None div_onclick) \<noteq> ''Baixo''
   \<and> v_severity (event_vulnerability ''http://site/'' None div_onclick) \<noteq> ''Informativo''"
proof -
  have c: "correlate_analyses ''http://site/'' None (empty_html\<lparr>ha_event_handlers := [div_onclick]\<rparr>)
       (ScriptAnalyzer_analyze []) None
     = Inr [event_vulnerability ''http://site/'' None div_onclick]"
    by (simp add: correlate_analyses_def find_input_vulnerabilities_def
        find_event_vulnerabilities_def find_script_vulnerabilities_def
        find_url_vulnerabilities_def ScriptAnalyzer_analyze_def empty_html_def)
  have m: "event_vulnerability ''http://site/'' None div_onclick
      \<in> set [event_vulnerability ''http://site/'' None div_onclick]" by simp
  show ?thesis
    using c C10_only_high_and_medium_severities [OF c m] by blast
qed

section \<open>Input elements\<close>

lemma last_option_simps [simp]:
  "last_option [] = None"
  "last_option (xs @ [x]) = Some x"
  by (simp_all add: last_option_def)

lemma last_option_Cons:
  "last_option (x # xs) = (case last_option xs of None \<Rightarrow> Some x | Some y \<Rightarrow> Some y)"
  by (simp add: last_option_def)

lemma last_option_append:
  "last_option (xs @ ys) = (case last_option ys of None \<Rightarrow> last_option xs | Some y \<Rightarrow> Some y)"
  by (simp add: last_option_def)

text \<open>
  A loop whose body sets the flag and overwrites the vector whenever the element offends:
  the flag records whether some element offended, the vector the last offence.
\<close>

lemma foldl_last_wins:
  assumes s: "\<And>info a. in_suspicious (step info a) = (in_suspicious info \<or> off a \<noteq> None)"
    and x: "\<And>info a. in_xss_vector (step info a)
        = (case off a of None \<Rightarrow> in_xss_vector info | Some d \<Rightarrow> Some d)"
  shows "in_suspicious (foldl step info as) = (in_suspicious info \<or> list_ex (\<lambda>a. off a \<noteq> None) as)
    \<and> in_xss_vector (foldl step info as)
        = (case last_option (List.map_filter off as) of
             None \<Rightarrow> in_xss_vector info
           | Some d \<Rightarrow> Some d)"
proof (induction as arbitrary: info)
  case Nil
  then show ?case by simp
next
  case (Cons a as)
  show ?case
    using Cons.IH [of "step info a"]
    by (cases "off a"; cases "last_option (List.map_filter off as)")
       (simp_all add: s x last_option_Cons)
qed

lemma event_not_cdata: "a \<in> set event_attributes \<Longrightarrow> \<not> cdata_list_attribute tag a"
  by (auto simp: event_attributes_def cdata_list_attribute_def)

lemma input_attr_step_suspicious:
  "in_suspicious (input_attr_step info a) = (in_suspicious info \<or> input_offence a \<noteq> None)"
  by (cases a)
     (auto simp: input_attr_step_def input_offence_def attr_view_def Let_def)

lemma input_attr_step_vector:
  "in_xss_vector (input_attr_step info a)
     = (case input_offence a of None \<Rightarrow> in_xss_vector info | Some d \<Rightarrow> Some d)"
  using event_not_cdata [of "fst a" "''input''"]
  by (cases a)
     (auto simp: input_attr_step_def input_offence_def attr_view_def Let_def)

lemma other_attr_step_suspicious:
  "in_suspicious (other_attr_step t info a) = (in_suspicious info \<or> event_offence a \<noteq> None)"
  by (cases a) (auto simp: other_attr_step_def event_offence_def Let_def)

lemma other_attr_step_vector:
  "in_xss_vector (other_attr_step t info a)
     = (case event_offence a of None \<Rightarrow> in_xss_vector info | Some d \<Rightarrow> Some d)"
  using event_not_cdata [of "fst a" t]
  by (cases a) (auto simp: other_attr_step_def event_offence_def attr_view_def Let_def)

lemma option_step_suspicious:
  "in_suspicious (option_step info p) = (in_suspicious info \<or> option_offence p \<noteq> None)"
  by (auto simp: option_step_def option_offence_def Let_def)

lemma option_step_vector:
  "in_xss_vector (option_step info p)
     = (case option_offence p of None \<Rightarrow> in_xss_vector info | Some d \<Rightarrow> Some d)"
  by (auto simp: option_step_def option_offence_def Let_def)

lemma input_offence_iff:
  "input_offence a \<noteq> None \<longleftrightarrow>
     fst a \<in> set event_attributes
     \<or> (\<not> cdata_list_attribute ''input'' (fst a) \<and> contains ''javascript:'' (lower (snd a)))"
  by (auto simp: input_offence_def)

lemma analyze_input_facts:
  "in_suspicious (analyze_input p) = list_ex (\<lambda>a. input_offence a \<noteq> None) (node_attrs (snd p))
   \<and> in_xss_vector (analyze_input p) = last_option (List.map_filter input_offence (node_attrs (snd p)))"
proof -
  obtain anc tag where p: "p = (anc, tag)" by (cases p)
  show ?thesis
    unfolding p analyze_input_def
    using foldl_last_wins [of input_attr_step input_offence, OF input_attr_step_suspicious input_attr_step_vector]
    by (simp split: option.splits)
qed

lemma analyze_textarea_facts:
  "in_suspicious (analyze_textarea p) = list_ex (\<lambda>a. event_offence a \<noteq> None) (node_attrs (snd p))
   \<and> in_xss_vector (analyze_textarea p) = last_option (List.map_filter event_offence (node_attrs (snd p)))"
proof -
  obtain anc tag where p: "p = (anc, tag)" by (cases p)
  show ?thesis
    unfolding p analyze_textarea_def
    using foldl_last_wins [of "other_attr_step ''textarea''" event_offence,
        OF other_attr_step_suspicious [of "''textarea''"] other_attr_step_vector [of "''textarea''"]]
    by (simp split: option.splits)
qed

lemma analyze_select_facts:
  "in_suspicious (analyze_select p) =
     (list_ex (\<lambda>q. option_offence q \<noteq> None) (find_all_in ''option'' p)
      \<or> list_ex (\<lambda>a. event_offence a \<noteq> None) (node_attrs (snd p)))
   \<and> in_xss_vector (analyze_select p) =
       last_option (List.map_filter option_offence (find_all_in ''option'' p)
                    @ List.map_filter event_offence (node_attrs (snd p)))"
proof -
  obtain anc tag where p: "p = (anc, tag)" by (cases p)
  show ?thesis
    unfolding p analyze_select_def
    using foldl_last_wins [of "other_attr_step ''select''" event_offence,
        OF other_attr_step_suspicious [of "''select''"] other_attr_step_vector [of "''select''"]]
      foldl_last_wins [of option_step option_offence, OF option_step_suspicious option_step_vector]
    by (simp add: last_option_append split: option.splits)
qed

text \<open>
  C4, as the claim states it, fails: on \<^verbatim>\<open><input onload="a" onclick="b">\<close> the vector
  names \<^verbatim>\<open>onclick\<close>, the last offending attribute, not \<^verbatim>\<open>onload\<close>, the first.
\<close>

theorem C4_counterexample:
  "in_xss_vector (analyze_input
      ([''[document]''], Element ''input'' [(''onload'', ''a''), (''onclick'', ''b'')] []))
     = Some ''Event handler: onclick=b''
   \<and> in_xss_vector (analyze_input
      ([''[document]''], Element ''input'' [(''onload'', ''a''), (''onclick'', ''b'')] []))
     \<noteq> Some ''Event handler: onload=a''"
  by code_simp

text \<open>
  C4, amended. An \<^verbatim>\<open>input\<close> element is suspicious exactly when one of its attributes has
  an event-attribute name or a string value that contains \<^verbatim>\<open>javascript:\<close> in any case, and
  its vector records the last offending attribute in encounter order. A \<^verbatim>\<open>textarea\<close> or
  \<^verbatim>\<open>select\<close> element is suspicious when one of its attributes has an event-attribute name;
  and when none of its attribute values contains \<^verbatim>\<open>javascript:\<close>, its vector records the
  last offence in encounter order (for a \<^verbatim>\<open>select\<close>: its options first, then its
  attributes).
\<close>

theorem C4_suspicious_flag_and_last_vector:
  "in_suspicious (analyze_input p) =
     list_ex (\<lambda>a. fst a \<in> set event_attributes
                \<or> (\<not> cdata_list_attribute ''input'' (fst a) \<and> contains ''javascript:'' (lower (snd a))))
       (node_attrs (snd p))
   \<and> in_xss_vector (analyze_input p) = last_option (List.map_filter input_offence (node_attrs (snd p)))
   \<and> (list_ex (\<lambda>a. fst a \<in> set event_attributes) (node_attrs (snd t))
        \<longrightarrow> in_suspicious (analyze_textarea t))
   \<and> (list_ex (\<lambda>a. fst a \<in> set event_attributes) (node_attrs (snd s))
        \<longrightarrow> in_suspicious (analyze_select s))
   \<and> (\<not> list_ex (\<lambda>a. contains ''javascript:'' (lower (snd a))) (node_attrs (snd t))
        \<longrightarrow> in_xss_vector (analyze_textarea t)
            = last_option (List.map_filter event_offence (node_attrs (snd t))))
   \<and> (\<not> list_ex (\<lambda>a. contains ''javascript:'' (lower (snd a))) (node_attrs (snd s))
        \<longrightarrow> in_xss_vector (analyze_select s)
            = last_option (List.map_filter option_offence (find_all_in ''option'' s)
                           @ List.map_filter event_offence (node_attrs (snd s))))"
proof -
  have ev: "(\<lambda>a. event_offence a \<noteq> None) = (\<lambda>a. fst a \<in> set event_attributes)"
    by (auto simp: event_offence_def)
  have i: "in_suspicious (analyze_input p) =
     list_ex (\<lambda>a. fst a \<in> set event_attributes
                \<or> (\<not> cdata_list_attribute ''input'' (fst a) \<and> contains ''javascript:'' (lower (snd a))))
       (node_attrs (snd p))"
  proof -
    have "(\<lambda>a. input_offence a \<noteq> None) =
        (\<lambda>a. fst a \<in> set event_attributes
                \<or> (\<not> cdata_list_attribute ''input'' (fst a) \<and> contains ''javascript:'' (lower (snd a))))"
      by (rule ext) (rule input_offence_iff)
    then show ?thesis using analyze_input_facts [of p] by metis
  qed
  have t: "list_ex (\<lambda>a. fst a \<in> set event_attributes) (node_attrs (snd t))
        \<longrightarrow> in_suspicious (analyze_textarea t)"
    using analyze_textarea_facts [of t] unfolding ev by blast
  have s: "list_ex (\<lambda>a. fst a \<in> set event_attributes) (node_attrs (snd s))
        \<longrightarrow> in_suspicious (analyze_select s)"
    using analyze_select_facts [of s] unfolding ev by blast
  show ?thesis
    using i t s analyze_input_facts [of p] analyze_textarea_facts [of t] analyze_select_facts [of s]
    by blast
qed

theorem C4_suspicious_flag_and_last_vector_witness:
  "list_ex (\<lambda>a. fst a \<in> set event_attributes)
      (node_attrs (snd ([''form'', ''[document]''], Element ''textarea'' [(''name'', ''msg''), (''onfocus'', ''f()'')] [])))
   \<and> in_suspicious (analyze_textarea
        ([''form'', ''[document]''], Element ''textarea'' [(''name'', ''msg''), (''onfocus'', ''f()'')] []))
   \<and> list_ex (\<lambda>a. fst a \<in> set event_attributes)
      (node_attrs (snd ([''[document]''], Element ''select'' [(''onchange'', ''go()'')]
         [Element ''option'' [(''value'', ''javascript:x'')] [NavigableString ''One'']])))
   \<and> in_suspicious (analyze_select ([''[document]''], Element ''select'' [(''onchange'', ''go()'')]
         [Element ''option'' [(''value'', ''javascript:x'')] [NavigableString ''One'']]))
   \<and> in_xss_vector (analyze_textarea
        ([''form'', ''[document]''], Element ''textarea'' [(''name'', ''msg''), (''onfocus'', ''f()'')] []))
       = last_option (List.map_filter event_offence
           (node_attrs (snd ([''form'', ''[document]''],
              Element ''textarea'' [(''name'', ''msg''), (''onfocus'', ''f()'')] []))))
   \<and> in_xss_vector (analyze_select ([''[document]''], Element ''select'' [(''onchange'', ''go()'')]
         [Element ''option'' [(''value'', ''javascript:x'')] [NavigableString ''One'']]))
       = Some ''Event handler: onchange=go()''
   \<and> \<not> list_ex (\<lambda>a. contains ''javascript:'' (lower (snd a)))
      (node_attrs (snd ([''form'', ''[document]''], Element ''textarea'' [(''name'', ''msg''), (''onfocus'', ''f()'')] [])))
   \<and> \<not> list_ex (\<lambda>a. contains ''javascript:'' (lower (snd a)))
      (node_attrs (snd ([''[document]''], Element ''select'' [(''onchange'', ''go()'')]
         [Element ''option'' [(''value'', ''javascript:x'')] [NavigableString ''One'']])))
   \<and> in_suspicious (analyze_input input_onload)
   \<and> in_xss_vector (analyze_input input_onload) = Some ''Event handler: onload=eval(x)''"
proof -
  let ?t = "([''form'', ''[document]''], Element ''textarea'' [(''name'', ''msg''), (''onfocus'', ''f()'')] [])"
  let ?s = "([''[document]''], Element ''select'' [(''onchange'', ''go()'')]
         [Element ''option'' [(''value'', ''javascript:x'')] [NavigableString ''One'']])"
  have et: "list_ex (\<lambda>a. fst a \<in> set event_attributes) (node_attrs (snd ?t))"
    by code_simp
  have es: "list_ex (\<lambda>a. fst a \<in> set event_attributes) (node_attrs (snd ?s))"
    by code_simp
  have jt: "\<not> list_ex (\<lambda>a. contains ''javascript:'' (lower (snd a))) (node_attrs (snd ?t))"
    by code_simp
  have js: "\<not> list_ex (\<lambda>a. contains ''javascript:'' (lower (snd a))) (node_attrs (snd ?s))"
    by code_simp
  have vs: "last_option (List.map_filter option_offence (find_all_in ''option'' ?s)
                           @ List.map_filter event_offence (node_attrs (snd ?s)))
      = Some ''Event handler: onchange=go()''"
    by code_simp
  have ii: "list_ex (\<lambda>a. fst a \<in> set event_attributes
                \<or> (\<not> cdata_list_attribute ''input'' (fst a) \<and> contains ''javascript:'' (lower (snd a))))
       (node_attrs (snd input_onload))"
    by code_simp
  have iv: "last_option (List.map_filter input_offence (node_attrs (snd input_onload)))
      = Some ''Event handler: onload=eval(x)''"
    by code_simp
  show ?thesis
    using et es jt js vs ii iv C4_suspicious_flag_and_last_vector [of input_onload ?t ?s]
    by metis
qed

section \<open>Links\<close>

lemma param_step_fields:
  "ln_suspicious (param_step info kv) = (ln_suspicious info \<or> suspicious_value (snd kv))"
  "ln_has_parameters (param_step info kv) = ln_has_parameters info"
  "ln_parameters (param_step info kv) = ln_parameters info"
  by (cases kv; simp add: param_step_def)+

lemma foldl_param_step:
  "ln_suspicious (foldl param_step info ps)
     = (ln_suspicious info \<or> list_ex (\<lambda>kv. suspicious_value (snd kv)) ps)
   \<and> ln_has_parameters (foldl param_step info ps) = ln_has_parameters info
   \<and> ln_parameters (foldl param_step info ps) = ln_parameters info"
  by (induction ps arbitrary: info) (simp_all add: param_step_fields)


lemma link_event_step_fields:
  "ln_suspicious (link_event_step info a) = (ln_suspicious info \<or> lower (fst a) \<in> set event_attributes)"
  "ln_has_parameters (link_event_step info a) = ln_has_parameters info"
  "ln_parameters (link_event_step info a) = ln_parameters info"
  by (cases a; simp add: link_event_step_def)+

lemma foldl_link_event_step:
  "ln_suspicious (foldl link_event_step info as)
     = (ln_suspicious info \<or> list_ex (\<lambda>a. lower (fst a) \<in> set event_attributes) as)
   \<and> ln_has_parameters (foldl link_event_step info as) = ln_has_parameters info
   \<and> ln_parameters (foldl link_event_step info as) = ln_parameters info"
  by (induction as arbitrary: info) (simp_all add: link_event_step_fields)


lemma list_ex_first_value:
  "list_ex (\<lambda>kv. suspicious_value (snd kv)) (map (\<lambda>kv. (fst kv, first_value (snd kv))) qs)
     = list_ex (\<lambda>kv. suspicious_value (first_value (snd kv))) qs"
  by (induction qs) simp_all

lemma analyze_link_suspicious:
  "ln_suspicious (analyze_link qp p) =
     (startswith (lower (attr_get (snd p) ''href'' '''')) ''javascript:''
      \<or> (CHR ''?'' \<in> set (attr_get (snd p) ''href'' '''') \<and> absolute_url (attr_get (snd p) ''href'' '''')
          \<and> query_suspicious qp (attr_get (snd p) ''href'' ''''))
      \<or> list_ex (\<lambda>a. lower (fst a) \<in> set event_attributes) (node_attrs (snd p)))"
  by (cases "qp (attr_get (snd p) ''href'' '''')")
     (auto simp: analyze_link_def Let_def foldl_link_event_step foldl_param_step
        list_ex_first_value query_suspicious_def)

lemma analyze_link_has_parameters:
  "ln_has_parameters (analyze_link qp p) =
     (if startswith (lower (attr_get (snd p) ''href'' '''')) ''javascript:'' then None
      else if CHR ''?'' \<in> set (attr_get (snd p) ''href'' '''') \<and> \<not> absolute_url (attr_get (snd p) ''href'' '''')
      then Some True
      else if CHR ''?'' \<in> set (attr_get (snd p) ''href'' '''') \<and> qp (attr_get (snd p) ''href'' '''') \<noteq> None
      then Some True
      else None)"
  by (cases "qp (attr_get (snd p) ''href'' '''')")
     (auto simp: analyze_link_def Let_def foldl_link_event_step foldl_param_step)

lemma analyze_link_parameters:
  "ln_parameters (analyze_link qp p) =
     (if \<not> startswith (lower (attr_get (snd p) ''href'' '''')) ''javascript:''
         \<and> CHR ''?'' \<in> set (attr_get (snd p) ''href'' '''') \<and> absolute_url (attr_get (snd p) ''href'' '''')
      then map_option (map (\<lambda>kv. (fst kv, first_value (snd kv)))) (qp (attr_get (snd p) ''href'' ''''))
      else None)"
  by (cases "qp (attr_get (snd p) ''href'' '''')")
     (auto simp: analyze_link_def Let_def foldl_link_event_step foldl_param_step)

text \<open>
  C5, as the claim states it, fails: the relative link \<^verbatim>\<open>/search?q=<script>alert(1)</script>\<close>
  is recorded as parameter-bearing but its parameters are not decoded and it is not
  flagged, while the same query on an absolute URL is; and of a repeated parameter only
  the first value is tested.
\<close>

theorem C5_counterexample:
  "map ln_suspicious (analyze_links urllib_query
      [Element ''a'' [(''href'', ''/search?q=<script>alert(1)</script>'')] [NavigableString ''go'']])
     = [False]
   \<and> map ln_suspicious (analyze_links urllib_query
      [Element ''a'' [(''href'', ''http://x.org/search?q=<script>alert(1)</script>'')] [NavigableString ''go'']])
     = [True]
   \<and> map ln_suspicious (analyze_links urllib_query
      [Element ''a'' [(''href'', ''http://x.org/search?q=1&q=<script>alert(1)</script>'')] [NavigableString ''go'']])
     = [False]"
  by code_simp

text \<open>
  C5, amended. For every URL library and every anchor with an href: the link is flagged
  suspicious exactly when the href starts with \<^verbatim>\<open>javascript:\<close> in any case, or the href is
  absolute (it starts with \<^verbatim>\<open>http:\<close>, \<^verbatim>\<open>https:\<close> or \<^verbatim>\<open>ftp:\<close> in any case), contains
  \<^verbatim>\<open>?\<close>, parses, and the first decoded value of one of its parameters contains
  \<^verbatim>\<open><script\<close>, \<^verbatim>\<open>javascript:\<close>, \<^verbatim>\<open>onerror=\<close> or \<^verbatim>\<open>onload=\<close> in any case, or the anchor has
  an event attribute. A relative href with \<^verbatim>\<open>?\<close> is recorded as parameter-bearing and not
  decoded; an absolute one is parameter-bearing when it parses, and a malformed one has no
  parameters. Every link in the output is suspicious or parameter-bearing.
\<close>

theorem C5_link_flags:
  "(let href = attr_get (snd p) ''href'' '''' in
      ln_suspicious (analyze_link qp p) =
        (startswith (lower href) ''javascript:''
         \<or> (CHR ''?'' \<in> set href \<and> absolute_url href \<and> query_suspicious qp href)
         \<or> list_ex (\<lambda>a. lower (fst a) \<in> set event_attributes) (node_attrs (snd p)))
      \<and> ln_has_parameters (analyze_link qp p) =
        (if startswith (lower href) ''javascript:'' then None
         else if CHR ''?'' \<in> set href \<and> \<not> absolute_url href then Some True
         else if CHR ''?'' \<in> set href \<and> qp href \<noteq> None then Some True
         else None)
      \<and> ln_parameters (analyze_link qp p) =
        (if \<not> startswith (lower href) ''javascript:'' \<and> CHR ''?'' \<in> set href \<and> absolute_url href
         then map_option (map (\<lambda>kv. (fst kv, first_value (snd kv)))) (qp href)
         else None))
   \<and> list_all (\<lambda>l. ln_suspicious l \<or> ln_has_parameters l = Some True) (analyze_links qp soup)"
proof -
  have "list_all (\<lambda>l. ln_suspicious l \<or> ln_has_parameters l = Some True) (analyze_links qp soup)"
    by (simp add: analyze_links_def list_all_iff)
  then show ?thesis
    unfolding Let_def
    using analyze_link_suspicious [of qp p] analyze_link_has_parameters [of qp p]
      analyze_link_parameters [of qp p]
    by blast
qed


end
